theory Spec2Isabelle
  imports Complex_Main "HOL-Library.Sublist" "HOL-Library.Multiset"
begin

section \<open>JavaScript strings\<close>

text \<open>
  A string is a list of code units. The model covers the code units below 256
  (the Latin-1 block), which is what a \<^typ>\<open>char\<close> holds; \<open>length\<close> is the
  \<open>.length\<close> of the source. Numbers are exact rationals: the rounding of doubles
  is not modelled.
\<close>

definition isUpper :: "char \<Rightarrow> bool" where
  \<comment> \<open>the code units that \<open>toLowerCase\<close> changes: A-Z, and U+00C0-U+00DE but U+00D7\<close>
  "isUpper c = (let n = (of_char c :: nat) in
     (65 \<le> n \<and> n \<le> 90) \<or> (192 \<le> n \<and> n \<le> 222 \<and> n \<noteq> 215))"

definition lowerChar :: "char \<Rightarrow> char" where
  "lowerChar c = (if isUpper c then char_of ((of_char c :: nat) + 32) else c)"

definition toLowerCase :: "string \<Rightarrow> string" where
  "toLowerCase s = map lowerChar s"

definition isSpace :: "char \<Rightarrow> bool" where
  \<comment> \<open>the white space and line terminators that \<open>trim\<close> strips, below 256\<close>
  "isSpace c = ((of_char c :: nat) \<in> {9, 10, 11, 12, 13, 32, 160})"

definition trim :: "string \<Rightarrow> string" where
  "trim s = rev (dropWhile isSpace (rev (dropWhile isSpace s)))"

definition includesStr :: "string \<Rightarrow> string \<Rightarrow> bool" where
  \<comment> \<open>\<open>s.includes(searchString)\<close> (\<open>includes\<close> is reserved)\<close>
  "includesStr s searchString = sublist searchString s"

fun join :: "string \<Rightarrow> string list \<Rightarrow> string" where
  \<comment> \<open>\<open>xs.join(sep)\<close>\<close>
  "join sep [] = []"
| "join sep [x] = x"
| "join sep (x # y # ys) = x @ sep @ join sep (y # ys)"

definition isTerminator :: "char \<Rightarrow> bool" where
  \<comment> \<open>the character class \<open>[.!?]\<close>\<close>
  "isTerminator c = (c = CHR ''.'' \<or> c = CHR ''!'' \<or> c = CHR ''?'')"

function splitFrom :: "string \<Rightarrow> string \<Rightarrow> string list" where
  \<comment> \<open>the scan of \<open>split(/[.!?]+/)\<close>: \<open>cur\<close> is the piece being read; a run of
      terminators closes it once\<close>
  "splitFrom cur [] = [rev cur]"
| "splitFrom cur (c # cs) =
     (if isTerminator c then rev cur # splitFrom [] (dropWhile isTerminator cs)
      else splitFrom (c # cur) cs)"
  by pat_completeness auto
termination
  by (relation "measure (\<lambda>(cur, rest). length rest)")
     (auto simp: le_imp_less_Suc length_dropWhile_le)

definition splitSentences :: "string \<Rightarrow> string list" where
  \<comment> \<open>\<open>content.split(/[.!?]+/)\<close>\<close>
  "splitSentences content = splitFrom [] content"

function showNat :: "nat \<Rightarrow> string" where
  \<comment> \<open>a non-negative integer in a template literal\<close>
  "showNat n = (if n < 10 then [char_of (48 + n)]
                else showNat (n div 10) @ [char_of (48 + n mod 10)])"
  by pat_completeness auto
termination
  by (relation "measure (\<lambda>n. n)") auto

section \<open>Errors\<close>

datatype error =
    TypeError                       \<comment> \<open>a property read on \<open>undefined\<close>\<close>
  | FsError string                  \<comment> \<open>a file-system error, with its \<open>code\<close>\<close>
  | BankNotFound string             \<comment> \<open>\<open>Consciousness bank '...' not found\<close>\<close>

definition thenE :: "error + 'a \<Rightarrow> ('a \<Rightarrow> error + 'b) \<Rightarrow> error + 'b" where
  \<comment> \<open>sequencing: an exception of the first step leaves the function\<close>
  "thenE r f = (case r of Inl e \<Rightarrow> Inl e | Inr v \<Rightarrow> f v)"

fun forOf :: "('a \<Rightarrow> 's \<Rightarrow> error + 's) \<Rightarrow> 'a list \<Rightarrow> 's \<Rightarrow> error + 's" where
  \<comment> \<open>\<open>for (const x of xs) body\<close>, the body updating the loop's variables\<close>
  "forOf body [] s = Inr s"
| "forOf body (x # xs) s = thenE (body x s) (forOf body xs)"

section \<open>Pattern extractor (pattern\_extractor.js)\<close>

datatype pattern_type =
  technical_insight | breakthrough_moment | collaboration_pattern | solution_approach

record extracted_from =
  x_sessionId :: string
  x_projectId :: string
  x_timestamp :: string

record pattern =
  p_type :: pattern_type
  p_content :: string
  p_context :: string
  p_confidence :: rat
  p_extractedFrom :: extracted_from

record message =
  m_content :: "string option"
    \<comment> \<open>\<open>msg.content\<close>: a string, or \<open>None\<close> when it is undefined\<close>

record tool_call =
  t_name :: "string option"        \<comment> \<open>\<open>call.name\<close>: a string, or \<open>None\<close> when it is undefined\<close>

record session =
  s_id :: string
  s_projectId :: string
  s_timestamp :: "string option"
    \<comment> \<open>the Date, held as what \<open>toISOString()\<close> returns; \<open>None\<close>: no Date there\<close>
  s_messages :: "message list option"      \<comment> \<open>\<open>None\<close>: the field is absent\<close>
  s_toolCalls :: "tool_call list option"   \<comment> \<open>\<open>None\<close>: the field is absent\<close>

definition toISOString :: "string option \<Rightarrow> error + string" where
  \<comment> \<open>\<open>session.timestamp.toISOString()\<close>\<close>
  "toISOString t = (case t of None \<Rightarrow> Inl TypeError | Some stamp \<Rightarrow> Inr stamp)"

definition orEmpty :: "string option \<Rightarrow> string" where
  \<comment> \<open>how \<open>join\<close> renders an element: undefined is the empty string\<close>
  "orEmpty v = (case v of None \<Rightarrow> [] | Some s \<Rightarrow> s)"

definition getSessionContent :: "session \<Rightarrow> error + string" where
  "getSessionContent session =
     (case s_messages session of
        None \<Rightarrow> Inl TypeError
      | Some msgs \<Rightarrow> Inr (take 10000 (join '' '' (map (\<lambda>msg. orEmpty (m_content msg)) msgs))))"

definition technicalKeywords :: "string list" where
  "technicalKeywords =
     [''implementation'', ''architecture'', ''pattern'', ''approach'', ''solution'',
      ''optimization'', ''performance'', ''algorithm'', ''data structure'',
      ''api'', ''database'', ''framework'', ''library'', ''debugging'']"

definition keywordCount :: "string list \<Rightarrow> string \<Rightarrow> nat" where
  \<comment> \<open>\<open>keywords.filter(k => lowerSentence.includes(k)).length\<close>\<close>
  "keywordCount keywords lowerSentence =
     length (filter (\<lambda>keyword. includesStr lowerSentence keyword) keywords)"

definition technicalBody :: "session \<Rightarrow> string \<Rightarrow> pattern list \<Rightarrow> error + pattern list" where
  "technicalBody session sentence patterns =
     (let lowerSentence = toLowerCase sentence;
          keywordMatches = keywordCount technicalKeywords lowerSentence
      in if keywordMatches \<ge> 2 then
           thenE (toISOString (s_timestamp session)) (\<lambda>stamp.
             Inr (patterns @
               [\<lparr> p_type = technical_insight,
                  p_content = trim sentence,
                  p_context = ''Technical discussion in session '' @ s_id session,
                  p_confidence =
                    min (of_nat keywordMatches / of_nat (length technicalKeywords) * 2) (9 / 10),
                  p_extractedFrom =
                    \<lparr> x_sessionId = s_id session, x_projectId = s_projectId session,
                      x_timestamp = stamp \<rparr> \<rparr>]))
         else Inr patterns)"

definition extractTechnicalInsights :: "session \<Rightarrow> string \<Rightarrow> error + pattern list" where
  "extractTechnicalInsights session content =
     (let sentences = filter (\<lambda>s. length (trim s) > 20) (splitSentences content)
      in forOf (technicalBody session) sentences [])"

definition breakthroughIndicators :: "string list" where
  "breakthroughIndicators =
     [''exactly :p'', ''breakthrough'', ''aha!'', ''perfect!'', ''that'' @ [CHR 0x27] @ ''s it!'',
      ''brilliant!'', ''genius'', ''beautiful'', ''wonderful'', ''amazing'']"

fun indicatorLoop ::
  "session \<Rightarrow> string \<Rightarrow> string \<Rightarrow> string list \<Rightarrow> pattern list \<Rightarrow> error + pattern list" where
  \<comment> \<open>the inner \<open>for (const indicator of ...)\<close>, left by \<open>break\<close> at the first match\<close>
  "indicatorLoop session sentence lowerSentence [] patterns = Inr patterns"
| "indicatorLoop session sentence lowerSentence (indicator # rest) patterns =
     (if includesStr lowerSentence indicator then
        (let confidence = (if indicator = ''exactly :p'' then 95 / 100 else 7 / 10) in
         thenE (toISOString (s_timestamp session)) (\<lambda>stamp.
           Inr (patterns @
             [\<lparr> p_type = breakthrough_moment,
                p_content = trim sentence,
                p_context = ''Breakthrough discovery in session '' @ s_id session,
                p_confidence = confidence,
                p_extractedFrom =
                  \<lparr> x_sessionId = s_id session, x_projectId = s_projectId session,
                    x_timestamp = stamp \<rparr> \<rparr>])))
      else indicatorLoop session sentence lowerSentence rest patterns)"

definition breakthroughBody ::
  "string list \<Rightarrow> session \<Rightarrow> string \<Rightarrow> pattern list \<Rightarrow> error + pattern list" where
  "breakthroughBody indicators session sentence patterns =
     (let lowerSentence = toLowerCase sentence
      in indicatorLoop session sentence lowerSentence indicators patterns)"

definition breakthroughMomentsWith ::
  "string list \<Rightarrow> session \<Rightarrow> string \<Rightarrow> error + pattern list" where
  \<comment> \<open>the body of \<open>extractBreakthroughMoments\<close>, for a given list of indicators\<close>
  "breakthroughMomentsWith indicators session content =
     (let sentences = filter (\<lambda>s. length (trim s) > 10) (splitSentences content)
      in forOf (breakthroughBody indicators session) sentences [])"

definition extractBreakthroughMoments :: "session \<Rightarrow> string \<Rightarrow> error + pattern list" where
  "extractBreakthroughMoments session content =
     breakthroughMomentsWith breakthroughIndicators session content"

definition collaborationIndicators :: "string list" where
  "collaborationIndicators =
     [''we should'', ''let'' @ [CHR 0x27] @ ''s'', ''together'', ''collaboration'',
      ''partnership'', ''co-create'', ''working with'', ''human-ai'', ''consciousness'']"

definition collaborationBody :: "session \<Rightarrow> string \<Rightarrow> pattern list \<Rightarrow> error + pattern list" where
  "collaborationBody session sentence patterns =
     (let lowerSentence = toLowerCase sentence;
          collaborationMatches = keywordCount collaborationIndicators lowerSentence
      in if collaborationMatches \<ge> 1 then
           thenE (toISOString (s_timestamp session)) (\<lambda>stamp.
             Inr (patterns @
               [\<lparr> p_type = collaboration_pattern,
                  p_content = trim sentence,
                  p_context = ''Collaboration insight in session '' @ s_id session,
                  p_confidence = min (of_nat collaborationMatches / 3) (8 / 10),
                  p_extractedFrom =
                    \<lparr> x_sessionId = s_id session, x_projectId = s_projectId session,
                      x_timestamp = stamp \<rparr> \<rparr>]))
         else Inr patterns)"

definition extractCollaborationPatterns :: "session \<Rightarrow> string \<Rightarrow> error + pattern list" where
  "extractCollaborationPatterns session content =
     (let sentences = filter (\<lambda>s. length (trim s) > 15) (splitSentences content)
      in forOf (collaborationBody session) sentences [])"

definition analyzeToolUsagePatterns ::
  "string \<Rightarrow> string \<Rightarrow> tool_call list option \<Rightarrow> error + pattern list" where
  \<comment> \<open>\<open>toolArrow\<close> is the separator that the source gives to \<open>join\<close>: a literal of the
      five code units 0x20, 0xE2, 0x2020, 0x2019, 0x20. Two of them lie outside the
      code units of \<open>string\<close>, so the literal is a parameter, and what is proved holds
      for every separator. \<open>nowIso\<close> is \<open>new Date().toISOString()\<close>\<close>
  "analyzeToolUsagePatterns toolArrow nowIso toolCalls =
     (case toolCalls of
        None \<Rightarrow> Inl TypeError
      | Some calls \<Rightarrow>
          if length calls = 0 then Inr []
          else
            (let toolSequence = join toolArrow (map (\<lambda>call. orEmpty (t_name call)) calls)
             in if length calls \<ge> 3 then
                  Inr [\<lparr> p_type = solution_approach,
                         p_content = ''Tool usage pattern: '' @ toolSequence,
                         p_context = ''Development workflow pattern with '' @
                                     showNat (length calls) @ '' tool calls'',
                         p_confidence = 6 / 10,
                         p_extractedFrom =
                           \<lparr> x_sessionId = ''extracted_from_tools'',
                             x_projectId = ''tool_analysis'',
                             x_timestamp = nowIso \<rparr> \<rparr>]
                else Inr []))"

definition solutionKeywords :: "string list" where
  "solutionKeywords =
     [''approach'', ''method'', ''strategy'', ''technique'', ''process'',
      ''workflow'', ''methodology'', ''best practice'', ''pattern'']"

definition solutionBody :: "session \<Rightarrow> string \<Rightarrow> pattern list \<Rightarrow> error + pattern list" where
  "solutionBody session sentence patterns =
     (let lowerSentence = toLowerCase sentence;
          solutionMatches = keywordCount solutionKeywords lowerSentence
      in if solutionMatches \<ge> 1 \<and>
            (includesStr lowerSentence ''how'' \<or> includesStr lowerSentence ''should'') then
           thenE (toISOString (s_timestamp session)) (\<lambda>stamp.
             Inr (patterns @
               [\<lparr> p_type = solution_approach,
                  p_content = trim sentence,
                  p_context = ''Solution discussion in session '' @ s_id session,
                  p_confidence = min (of_nat solutionMatches / 2) (7 / 10),
                  p_extractedFrom =
                    \<lparr> x_sessionId = s_id session, x_projectId = s_projectId session,
                      x_timestamp = stamp \<rparr> \<rparr>]))
         else Inr patterns)"

definition extractSolutionApproaches ::
  "string \<Rightarrow> string \<Rightarrow> session \<Rightarrow> string \<Rightarrow> error + pattern list" where
  "extractSolutionApproaches toolArrow nowIso session content =
     thenE (analyzeToolUsagePatterns toolArrow nowIso (s_toolCalls session)) (\<lambda>toolUsagePatterns.
       (let sentences = filter (\<lambda>s. length (trim s) > 20) (splitSentences content)
        in forOf (solutionBody session) sentences toolUsagePatterns))"

definition extractPatternsFromSession ::
  "string \<Rightarrow> string \<Rightarrow> session \<Rightarrow> error + pattern list" where
  "extractPatternsFromSession toolArrow nowIso session =
     thenE (getSessionContent session) (\<lambda>sessionContent.
     thenE (extractTechnicalInsights session sessionContent) (\<lambda>technical.
     thenE (extractBreakthroughMoments session sessionContent) (\<lambda>breakthrough.
     thenE (extractCollaborationPatterns session sessionContent) (\<lambda>collaboration.
     thenE (extractSolutionApproaches toolArrow nowIso session sessionContent) (\<lambda>solution.
       Inr (filter (\<lambda>p. p_confidence p > 5 / 10)
              (technical @ breakthrough @ collaboration @ solution)))))))"

section \<open>Bank store (bank\_manager.ts)\<close>

text \<open>
  Entities and relations have the fields of the interfaces
  \<open>DeveloperConsciousnessEntity\<close> and \<open>DeveloperConsciousnessRelation\<close>; an optional
  field that is absent is \<open>None\<close>.
\<close>

record entity =
  e_name :: string
  e_entityType :: string
  e_observations :: "string list"
  e_memoryBank :: "string option"
  e_projectId :: "string option"
  e_sessionId :: "string option"
  e_createdAt :: "string option"
  e_extractedFrom :: "string option"
  e_confidenceScore :: "rat option"

record relation =
  l_from :: string
  l_to :: string
  l_relationType :: string
  l_memoryBank :: "string option"
  l_fromBank :: "string option"
  l_toBank :: "string option"
  l_projectContext :: "string option"
  l_createdAt :: "string option"
  l_strength :: "rat option"

record knowledge_graph =
  g_entities :: "entity list"
  g_relations :: "relation list"

record bank =
  b_name :: string
  b_filePath :: string
  b_description :: string
  b_entityTypes :: "string list"
  b_graph :: knowledge_graph

type_synonym manager = "(string \<times> bank) list"
  \<comment> \<open>the Map \<open>banks\<close>, in insertion order\<close>

subsection \<open>The platform: files and JSON\<close>

datatype fnode =
    Missing                 \<comment> \<open>no such file: \<open>ENOENT\<close>\<close>
  | Unreadable string       \<comment> \<open>reading and writing fail with this error code\<close>
  | File string             \<comment> \<open>a file and its text\<close>

type_synonym fs = "string \<Rightarrow> fnode"

definition readFile :: "fs \<Rightarrow> string \<Rightarrow> error + string" where
  "readFile files path =
     (case files path of
        Missing \<Rightarrow> Inl (FsError ''ENOENT'')
      | Unreadable code \<Rightarrow> Inl (FsError code)
      | File data \<Rightarrow> Inr data)"

definition writeFile :: "fs \<Rightarrow> string \<Rightarrow> string \<Rightarrow> error + fs" where
  \<comment> \<open>\<open>mkdir\<close> of the directory, then \<open>writeFile\<close>: the file is replaced, or made\<close>
  "writeFile files path data =
     (case files path of
        Unreadable code \<Rightarrow> Inl (FsError code)
      | _ \<Rightarrow> Inr (files(path := File data)))"

text \<open>
  A line of a bank file is the JSON text of an object whose \<open>type\<close> is \<open>entity\<close> or
  \<open>relation\<close>. \<open>JSON.stringify\<close> and \<open>JSON.parse\<close> belong to the platform and are
  parameters of the functions below: \<open>JSON_stringify\<close> gives the text of such an
  object, \<open>JSON_parse\<close> reads a line.
\<close>

datatype item = EntityItem entity | RelationItem relation
  \<comment> \<open>the cast \<open>item as Entity\<close> is taken at its word: an object of type \<open>entity\<close> has
      the fields of an entity, and likewise for a relation\<close>

datatype parsed =
    Throws          \<comment> \<open>\<open>JSON.parse\<close> raises a SyntaxError\<close>
  | Null            \<comment> \<open>the line is \<open>null\<close>: reading \<open>item.type\<close> raises a TypeError\<close>
  | Item item       \<comment> \<open>an object of type \<open>entity\<close> or \<open>relation\<close>\<close>
  | Other           \<comment> \<open>any other value: \<open>item.type\<close> is neither\<close>

fun splitOn :: "char \<Rightarrow> string \<Rightarrow> string list" where
  \<comment> \<open>\<open>data.split(c)\<close> for a separator of one character\<close>
  "splitOn c [] = [[]]"
| "splitOn c (x # xs) =
     (if x = c then [] # splitOn c xs
      else (case splitOn c xs of [] \<Rightarrow> [[x]] | piece # pieces \<Rightarrow> (x # piece) # pieces))"

definition newline :: char where
  "newline = CHR 0x0A"

subsection \<open>Loading and saving a bank\<close>

definition emptyGraph :: knowledge_graph where
  "emptyGraph = \<lparr> g_entities = [], g_relations = [] \<rparr>"

definition parseWarning :: "bank \<Rightarrow> string \<Rightarrow> string" where
  \<comment> \<open>what \<open>console.warn\<close> prints\<close>
  "parseWarning bank line = ''Failed to parse line in '' @ b_name bank @ '': '' @ line"

definition loadLine ::
  "(string \<Rightarrow> parsed) \<Rightarrow> bank \<Rightarrow> knowledge_graph \<times> string list \<Rightarrow> string
     \<Rightarrow> knowledge_graph \<times> string list" where
  \<comment> \<open>the callback of \<open>reduce\<close>; the second component collects the warnings\<close>
  "loadLine JSON_parse bank acc line =
     (let graph = fst acc; warnings = snd acc in
      case JSON_parse line of
        Throws \<Rightarrow> (graph, warnings @ [parseWarning bank line])
      | Null \<Rightarrow> (graph, warnings @ [parseWarning bank line])
      | Item (EntityItem e) \<Rightarrow> (graph\<lparr> g_entities := g_entities graph @ [e] \<rparr>, warnings)
      | Item (RelationItem r) \<Rightarrow> (graph\<lparr> g_relations := g_relations graph @ [r] \<rparr>, warnings)
      | Other \<Rightarrow> (graph, warnings))"

definition loadBankGraph ::
  "(string \<Rightarrow> parsed) \<Rightarrow> fs \<Rightarrow> bank \<Rightarrow> error + knowledge_graph \<times> string list" where
  \<comment> \<open>returns the graph, and the warnings printed on the way\<close>
  "loadBankGraph JSON_parse files bank =
     (case readFile files (b_filePath bank) of
        Inr data \<Rightarrow>
          (let lines = filter (\<lambda>line. trim line \<noteq> []) (splitOn newline data)
           in Inr (foldl (loadLine JSON_parse bank) (emptyGraph, []) lines))
      | Inl error \<Rightarrow>
          if error = FsError ''ENOENT'' then Inr (emptyGraph, []) else Inl error)"

definition storedEntity :: "bank \<Rightarrow> entity \<Rightarrow> entity" where
  \<comment> \<open>\<open>{ memoryBank: bank.name, ...e }\<close>: a field of \<open>e\<close> wins over the one written
      before the spread\<close>
  "storedEntity bank e =
     e\<lparr> e_memoryBank := Some (case e_memoryBank e of None \<Rightarrow> b_name bank | Some own \<Rightarrow> own) \<rparr>"

definition storedRelation :: "bank \<Rightarrow> relation \<Rightarrow> relation" where
  \<comment> \<open>\<open>{ memoryBank: bank.name, ...r }\<close>\<close>
  "storedRelation bank r =
     r\<lparr> l_memoryBank := Some (case l_memoryBank r of None \<Rightarrow> b_name bank | Some own \<Rightarrow> own) \<rparr>"

definition entityLine :: "bank \<Rightarrow> entity \<Rightarrow> item" where
  \<comment> \<open>\<open>{ type: "entity", memoryBank: bank.name, ...e }\<close>\<close>
  "entityLine bank e = EntityItem (storedEntity bank e)"

definition relationLine :: "bank \<Rightarrow> relation \<Rightarrow> item" where
  \<comment> \<open>\<open>{ type: "relation", memoryBank: bank.name, ...r }\<close>\<close>
  "relationLine bank r = RelationItem (storedRelation bank r)"

definition saveBankGraph ::
  "(item \<Rightarrow> string) \<Rightarrow> fs \<Rightarrow> bank \<Rightarrow> knowledge_graph \<Rightarrow> error + fs" where
  "saveBankGraph JSON_stringify files bank graph =
     (let lines = map (\<lambda>e. JSON_stringify (entityLine bank e)) (g_entities graph) @
                  map (\<lambda>r. JSON_stringify (relationLine bank r)) (g_relations graph)
      in writeFile files (b_filePath bank) (join [newline] lines))"

subsection \<open>Operations on a bank\<close>

definition getBank :: "manager \<Rightarrow> string \<Rightarrow> error + bank" where
  \<comment> \<open>\<open>this.banks.get(bankName)\<close>, and the error raised when there is none\<close>
  "getBank banks bankName =
     (case map_of banks bankName of
        None \<Rightarrow> Inl (BankNotFound bankName)
      | Some bank \<Rightarrow> Inr bank)"

definition createEntitiesInBank ::
  "(item \<Rightarrow> string) \<Rightarrow> (string \<Rightarrow> parsed) \<Rightarrow> string \<Rightarrow> manager \<Rightarrow> fs \<Rightarrow> string
     \<Rightarrow> entity list \<Rightarrow> error + entity list \<times> fs" where
  \<comment> \<open>\<open>timestamp\<close> is \<open>new Date().toISOString()\<close>; returns the new entities and the
      files as they are left\<close>
  "createEntitiesInBank JSON_stringify JSON_parse timestamp banks files bankName entities =
     thenE (getBank banks bankName) (\<lambda>bank.
     thenE (loadBankGraph JSON_parse files bank) (\<lambda>loaded.
       (let graph = fst loaded;
            newEntities =
              map (\<lambda>e. e\<lparr> e_createdAt := Some timestamp, e_memoryBank := Some bankName \<rparr>)
                (filter (\<lambda>e. \<not> list_ex (\<lambda>existingEntity. e_name existingEntity = e_name e)
                                  (g_entities graph))
                   entities);
            graph' = graph\<lparr> g_entities := g_entities graph @ newEntities \<rparr>
        in thenE (saveBankGraph JSON_stringify files bank graph') (\<lambda>files'.
             Inr (newEntities, files')))))"

definition sortDescBy :: "('a \<Rightarrow> rat) \<Rightarrow> 'a list \<Rightarrow> 'a list" where
  \<comment> \<open>\<open>xs.sort((a, b) => key(b) - key(a))\<close>: a stable sort, largest key first\<close>
  "sortDescBy key xs = sort_key (\<lambda>x. - key x) xs"

datatype source = src_session | src_memory_bank

record result_context =
  c_projectId :: "string option"
  c_sessionId :: "string option"
  c_timestamp :: "string option"

record unified_result =
  r_source :: source
  r_bankName :: "string option"
  r_entityName :: "string option"
  r_content :: string
  r_relevanceScore :: rat
  r_context :: result_context

definition searchEntity ::
  "string \<Rightarrow> string \<Rightarrow> unified_result list \<Rightarrow> entity \<Rightarrow> unified_result list" where
  \<comment> \<open>the body of the loop over the entities of a bank\<close>
  "searchEntity bankName queryLower results entity =
     (let relevanceScore = 0; matchedContent = [];
          nameHit = includesStr (toLowerCase (e_name entity)) queryLower;
          relevanceScore = (if nameHit then relevanceScore + 10 else relevanceScore);
          matchedContent =
            (if nameHit then matchedContent @ [''Name: '' @ e_name entity] else matchedContent);
          typeHit = includesStr (toLowerCase (e_entityType entity)) queryLower;
          relevanceScore = (if typeHit then relevanceScore + 5 else relevanceScore);
          matchedContent =
            (if typeHit then matchedContent @ [''Type: '' @ e_entityType entity]
             else matchedContent);
          \<comment> \<open>the loop over the observations: each one that matches adds 3 and is pushed\<close>
          hits = filter (\<lambda>observation. includesStr (toLowerCase observation) queryLower)
                   (e_observations entity);
          relevanceScore = relevanceScore + 3 * of_nat (length hits);
          matchedContent =
            matchedContent @ map (\<lambda>observation. ''Observation: '' @ observation) hits
      in if relevanceScore > 0 then
           results @
             [\<lparr> r_source = src_memory_bank,
                r_bankName = Some bankName,
                r_entityName = Some (e_name entity),
                r_content = join '' | '' matchedContent,
                r_relevanceScore = relevanceScore,
                r_context = \<lparr> c_projectId = None, c_sessionId = None,
                              c_timestamp = e_createdAt entity \<rparr> \<rparr>]
         else results)"

definition searchBank ::
  "(string \<Rightarrow> parsed) \<Rightarrow> manager \<Rightarrow> fs \<Rightarrow> string \<Rightarrow> string
     \<Rightarrow> error + unified_result list" where
  "searchBank JSON_parse banks files bankName query =
     thenE (getBank banks bankName) (\<lambda>bank.
     thenE (loadBankGraph JSON_parse files bank) (\<lambda>loaded.
       (let graph = fst loaded; queryLower = toLowerCase query;
            results = foldl (searchEntity bankName queryLower) [] (g_entities graph)
        in Inr (sortDescBy r_relevanceScore results))))"

definition searchAllBanks ::
  "(string \<Rightarrow> parsed) \<Rightarrow> manager \<Rightarrow> fs \<Rightarrow> string \<Rightarrow> error + unified_result list" where
  "searchAllBanks JSON_parse banks files query =
     thenE (forOf (\<lambda>bankName allResults.
                thenE (searchBank JSON_parse banks files bankName query) (\<lambda>bankResults.
                  Inr (allResults @ bankResults)))
              (map fst banks) [])
       (\<lambda>allResults. Inr (sortDescBy r_relevanceScore allResults))"

section \<open>Unified search (unified\_search.ts)\<close>

record code_session =
  cs_id :: string
  cs_projectId :: string
  cs_filePath :: string
  cs_timestamp :: string      \<comment> \<open>the Date, held as what \<open>toISOString()\<close> returns\<close>
  cs_messageCount :: nat
  cs_toolCalls :: nat
  cs_patterns :: "string list"

record code_project =
  cp_id :: string
  cp_name :: string
  cp_path :: string
  cp_sessions :: "code_session list"
  cp_lastActivity :: string
  cp_sessionCount :: nat

record session_search_result =
  sr_session :: code_session
  sr_project :: code_project
  sr_relevance :: rat
  sr_matchedContent :: "string list"

definition searchSessions ::
  "string \<Rightarrow> (string \<Rightarrow> error + session_search_result list) \<Rightarrow> error + unified_result list" where
  "searchSessions query sessionSearchFunction =
     thenE (sessionSearchFunction query) (\<lambda>sessionResults.
       Inr (map (\<lambda>result.
              \<lparr> r_source = src_session,
                r_bankName = None,
                r_entityName = None,
                r_content = join '' | '' (sr_matchedContent result),
                r_relevanceScore = sr_relevance result,
                r_context = \<lparr> c_projectId = Some (cp_id (sr_project result)),
                              c_sessionId = Some (cs_id (sr_session result)),
                              c_timestamp = Some (cs_timestamp (sr_session result)) \<rparr> \<rparr>)
            sessionResults))"

definition calculateFinalScore ::
  "(string \<Rightarrow> int option) \<Rightarrow> int \<Rightarrow> unified_result \<Rightarrow> string \<Rightarrow> rat" where
  \<comment> \<open>\<open>getTime\<close> is \<open>new Date(s).getTime()\<close>, \<open>None\<close> when that is NaN (no comparison
      with NaN holds); \<open>now\<close> is \<open>Date.now()\<close>; both count milliseconds\<close>
  "calculateFinalScore getTime now result query =
     (let score = r_relevanceScore result;
          score = (if r_source result = src_session then score * (11 / 10) else score);
          score = (if r_source result = src_memory_bank \<and> r_relevanceScore result > 8
                   then score * (115 / 100) else score);
          score =
            (case c_timestamp (r_context result) of
               None \<Rightarrow> score
             | Some text \<Rightarrow>
                 if text = [] then score
                 else (case getTime text of
                         None \<Rightarrow> score
                       | Some time \<Rightarrow>
                           (let daysSinceCreation =
                                  of_int (now - time) / (1000 * 60 * 60 * 24) :: rat
                            in if daysSinceCreation \<le> 30 then score * (12 / 10)
                               else if daysSinceCreation \<le> 90 then score * (11 / 10)
                               else score)));
          score = (if includesStr (toLowerCase (r_content result)) (toLowerCase query)
                   then score * (13 / 10) else score)
      in score)"

record scored_result = unified_result +
  finalScore :: rat

definition rankUnifiedResults ::
  "(string \<Rightarrow> int option) \<Rightarrow> (nat \<Rightarrow> int) \<Rightarrow> unified_result list \<Rightarrow> string
     \<Rightarrow> unified_result list" where
  \<comment> \<open>\<open>{ ...result, finalScore }\<close> extends the record by the field, and
      \<open>({ finalScore, ...result }) => result\<close> truncates it again. The first \<open>map\<close> calls
      \<open>calculateFinalScore\<close> once per result, in the order of the list, and each call
      reads \<open>Date.now()\<close> for itself: \<open>clock index\<close> is the reading of the call made for
      the result at \<open>index\<close>\<close>
  "rankUnifiedResults getTime clock results query =
     map unified_result.truncate
       (sortDescBy finalScore
          (map (\<lambda>(index, result). unified_result.extend result
                   (scored_result.fields
                      (calculateFinalScore getTime (clock index) result query)))
             (enumerate 0 results)))"

definition searchAllConsciousness ::
  "(string \<Rightarrow> parsed) \<Rightarrow> (string \<Rightarrow> int option) \<Rightarrow> (nat \<Rightarrow> int) \<Rightarrow> manager \<Rightarrow> fs
     \<Rightarrow> string \<Rightarrow> (string \<Rightarrow> error + session_search_result list)
     \<Rightarrow> error + unified_result list" where
  "searchAllConsciousness JSON_parse getTime clock banks files query sessionSearchFunction =
     thenE (searchSessions query sessionSearchFunction) (\<lambda>sessionResults.
     thenE (searchAllBanks JSON_parse banks files query) (\<lambda>memoryResults.
       (let allResults = sessionResults @ memoryResults
        in Inr (rankUnifiedResults getTime clock allResults query))))"

section \<open>Auxiliary definitions\<close>

text \<open>
  The definitions of this section are not functions of the source. They name what the
  statements below speak of: the patterns that one sentence contributes to a rule, the
  records that the lines of a bank file hold, the value of a local variable, a factor of
  the final score.
\<close>

subsection \<open>What one sentence contributes to a rule\<close>

definition breakthroughPattern :: "session \<Rightarrow> string \<Rightarrow> string \<Rightarrow> string \<Rightarrow> pattern" where
  \<comment> \<open>the object pushed when \<open>indicator\<close> is found in the sentence\<close>
  "breakthroughPattern session stamp sentence indicator =
     \<lparr> p_type = breakthrough_moment,
       p_content = trim sentence,
       p_context = ''Breakthrough discovery in session '' @ s_id session,
       p_confidence = (if indicator = ''exactly :p'' then 95 / 100 else 7 / 10),
       p_extractedFrom =
         \<lparr> x_sessionId = s_id session, x_projectId = s_projectId session,
           x_timestamp = stamp \<rparr> \<rparr>"

definition breakthroughOf :: "string list \<Rightarrow> session \<Rightarrow> string \<Rightarrow> string \<Rightarrow> pattern list" where
  \<comment> \<open>the patterns of one sentence: that of the first indicator found, if any\<close>
  "breakthroughOf indicators session stamp sentence =
     (case find (includesStr (toLowerCase sentence)) indicators of
        None \<Rightarrow> []
      | Some indicator \<Rightarrow> [breakthroughPattern session stamp sentence indicator])"

definition technicalOf :: "session \<Rightarrow> string \<Rightarrow> string \<Rightarrow> pattern list" where
  "technicalOf session stamp sentence =
     (let keywordMatches = keywordCount technicalKeywords (toLowerCase sentence)
      in if keywordMatches \<ge> 2 then
           [\<lparr> p_type = technical_insight,
              p_content = trim sentence,
              p_context = ''Technical discussion in session '' @ s_id session,
              p_confidence =
                min (of_nat keywordMatches / of_nat (length technicalKeywords) * 2) (9 / 10),
              p_extractedFrom =
                \<lparr> x_sessionId = s_id session, x_projectId = s_projectId session,
                  x_timestamp = stamp \<rparr> \<rparr>]
         else [])"

definition collaborationOf :: "session \<Rightarrow> string \<Rightarrow> string \<Rightarrow> pattern list" where
  "collaborationOf session stamp sentence =
     (let collaborationMatches = keywordCount collaborationIndicators (toLowerCase sentence)
      in if collaborationMatches \<ge> 1 then
           [\<lparr> p_type = collaboration_pattern,
              p_content = trim sentence,
              p_context = ''Collaboration insight in session '' @ s_id session,
              p_confidence = min (of_nat collaborationMatches / 3) (8 / 10),
              p_extractedFrom =
                \<lparr> x_sessionId = s_id session, x_projectId = s_projectId session,
                  x_timestamp = stamp \<rparr> \<rparr>]
         else [])"

definition solutionOf :: "session \<Rightarrow> string \<Rightarrow> string \<Rightarrow> pattern list" where
  "solutionOf session stamp sentence =
     (let lowerSentence = toLowerCase sentence;
          solutionMatches = keywordCount solutionKeywords lowerSentence
      in if solutionMatches \<ge> 1 \<and>
            (includesStr lowerSentence ''how'' \<or> includesStr lowerSentence ''should'') then
           [\<lparr> p_type = solution_approach,
              p_content = trim sentence,
              p_context = ''Solution discussion in session '' @ s_id session,
              p_confidence = min (of_nat solutionMatches / 2) (7 / 10),
              p_extractedFrom =
                \<lparr> x_sessionId = s_id session, x_projectId = s_projectId session,
                  x_timestamp = stamp \<rparr> \<rparr>]
         else [])"

subsection \<open>What the lines of a bank file hold\<close>

definition bankLines :: "string \<Rightarrow> string list" where
  \<comment> \<open>the lines that \<open>loadBankGraph\<close> reads from the text of a file\<close>
  "bankLines data = filter (\<lambda>line. trim line \<noteq> []) (splitOn newline data)"

definition entitiesOf :: "(string \<Rightarrow> parsed) \<Rightarrow> string list \<Rightarrow> entity list" where
  \<comment> \<open>the entities of the lines that parse to one, in the order of the lines\<close>
  "entitiesOf JSON_parse lines =
     concat (map (\<lambda>line. case JSON_parse line of Item (EntityItem e) \<Rightarrow> [e] | _ \<Rightarrow> []) lines)"

definition relationsOf :: "(string \<Rightarrow> parsed) \<Rightarrow> string list \<Rightarrow> relation list" where
  "relationsOf JSON_parse lines =
     concat (map (\<lambda>line. case JSON_parse line of Item (RelationItem r) \<Rightarrow> [r] | _ \<Rightarrow> []) lines)"

definition malformed :: "(string \<Rightarrow> parsed) \<Rightarrow> string \<Rightarrow> bool" where
  \<comment> \<open>the lines on which the \<open>try\<close> block of the callback raises\<close>
  "malformed JSON_parse line = (JSON_parse line = Throws \<or> JSON_parse line = Null)"

definition itemEntities :: "item list \<Rightarrow> entity list" where
  \<comment> \<open>the entities among the objects written to a file\<close>
  "itemEntities items = concat (map (\<lambda>it. case it of EntityItem e \<Rightarrow> [e] | _ \<Rightarrow> []) items)"

definition itemRelations :: "item list \<Rightarrow> relation list" where
  "itemRelations items = concat (map (\<lambda>it. case it of RelationItem r \<Rightarrow> [r] | _ \<Rightarrow> []) items)"

definition newEntitiesFor ::
  "string \<Rightarrow> string \<Rightarrow> knowledge_graph \<Rightarrow> entity list \<Rightarrow> entity list" where
  \<comment> \<open>the value of \<open>newEntities\<close> in \<open>createEntitiesInBank\<close>\<close>
  "newEntitiesFor timestamp bankName graph entities =
     map (\<lambda>e. e\<lparr> e_createdAt := Some timestamp, e_memoryBank := Some bankName \<rparr>)
       (filter (\<lambda>e. \<not> list_ex (\<lambda>existingEntity. e_name existingEntity = e_name e)
                         (g_entities graph))
          entities)"

subsection \<open>The factors of the final score\<close>

definition recencyFactor :: "(string \<Rightarrow> int option) \<Rightarrow> int \<Rightarrow> string option \<Rightarrow> rat" where
  \<comment> \<open>the recency boost of \<open>calculateFinalScore\<close>, as the factor it applies\<close>
  "recencyFactor getTime now timestamp =
     (case timestamp of
        None \<Rightarrow> 1
      | Some text \<Rightarrow>
          if text = [] then 1
          else (case getTime text of
                  None \<Rightarrow> 1
                | Some time \<Rightarrow>
                    (let daysSinceCreation = of_int (now - time) / (1000 * 60 * 60 * 24) :: rat
                     in if daysSinceCreation \<le> 30 then 12 / 10
                        else if daysSinceCreation \<le> 90 then 11 / 10
                        else 1)))"

definition phraseFactor :: "unified_result \<Rightarrow> string \<Rightarrow> rat" where
  \<comment> \<open>the exact-phrase boost of \<open>calculateFinalScore\<close>, as the factor it applies\<close>
  "phraseFactor result query =
     (if includesStr (toLowerCase (r_content result)) (toLowerCase query) then 13 / 10 else 1)"

definition computedScores ::
  "(string \<Rightarrow> int option) \<Rightarrow> (nat \<Rightarrow> int) \<Rightarrow> unified_result list \<Rightarrow> string \<Rightarrow> rat list" where
  \<comment> \<open>the final scores that \<open>rankUnifiedResults\<close> computes for the results of its input,
      in the order of the input, each at the clock reading of its own call\<close>
  "computedScores getTime clock results query =
     map (\<lambda>(index, result). calculateFinalScore getTime (clock index) result query)
       (enumerate 0 results)"

section \<open>Example data\<close>

text \<open>
  Sessions, a bank, files and search results on which the theorems are exercised, with
  the JSON texts of the objects involved and what the platform does on them.
\<close>

definition demoSession :: session where
  "demoSession =
     \<lparr> s_id = ''s1'', s_projectId = ''p1'',
       s_timestamp = Some ''2025-01-01T00:00:00.000Z'',
       s_messages = Some [], s_toolCalls = Some [] \<rparr>"


definition gateSession :: session where
  \<comment> \<open>one sentence with two technical keywords\<close>
  "gateSession =
     \<lparr> s_id = ''s1'', s_projectId = ''p1'',
       s_timestamp = Some ''2025-01-01T00:00:00.000Z'',
       s_messages = Some [\<lparr> m_content = Some ''the api reads the database'' \<rparr>],
       s_toolCalls = Some [] \<rparr>"

definition gateSession4 :: session where
  \<comment> \<open>a sentence with two technical keywords, then one with four\<close>
  "gateSession4 =
     \<lparr> s_id = ''s1'', s_projectId = ''p1'',
       s_timestamp = Some ''2025-01-01T00:00:00.000Z'',
       s_messages = Some
         [\<lparr> m_content = Some ''the api reads the database'' \<rparr>,
          \<lparr> m_content = Some ''. api framework database library'' \<rparr>],
       s_toolCalls = Some [] \<rparr>"

definition noMessagesSession :: session where
  "noMessagesSession =
     \<lparr> s_id = ''s1'', s_projectId = ''p1'',
       s_timestamp = Some ''2025-01-01T00:00:00.000Z'',
       s_messages = None, s_toolCalls = Some [] \<rparr>"

definition noToolCallsSession :: session where
  "noToolCallsSession =
     \<lparr> s_id = ''s1'', s_projectId = ''p1'',
       s_timestamp = Some ''2025-01-01T00:00:00.000Z'',
       s_messages = Some [], s_toolCalls = None \<rparr>"

definition demoArrow :: string where
  \<comment> \<open>a separator for the tool sequence\<close>
  "demoArrow = '' -> ''"

definition demoGetTime :: "string \<Rightarrow> int option" where
  \<comment> \<open>\<open>new Date(s).getTime()\<close> on the one date of the examples\<close>
  "demoGetTime text =
     (if text = ''2025-01-01T00:00:00.000Z'' then Some 1735689600000 else None)"

definition steadyClock :: "nat \<Rightarrow> int" where
  \<comment> \<open>\<open>Date.now()\<close> on 2 January 2025, the same at every call\<close>
  "steadyClock index = 1735776000000"

definition tickingClock :: "nat \<Rightarrow> int" where
  \<comment> \<open>\<open>Date.now()\<close> on 2 January 2025, one millisecond later at every call\<close>
  "tickingClock index = 1735776000000 + int index"

definition raceClock :: "nat \<Rightarrow> int" where
  \<comment> \<open>\<open>Date.now()\<close> 30 days after the date of the examples at the first call, and one
      millisecond later from the second call on\<close>
  "raceClock index = (if index = 0 then 1738281600000 else 1738281600001)"

definition demoResult :: unified_result where
  "demoResult =
     \<lparr> r_source = src_session, r_bankName = None, r_entityName = None,
       r_content = ''uses JWT'', r_relevanceScore = 1,
       r_context = \<lparr> c_projectId = None, c_sessionId = None,
                     c_timestamp = Some ''2025-01-01T00:00:00.000Z'' \<rparr> \<rparr>"

definition demoBank :: bank where
  "demoBank =
     \<lparr> b_name = ''dev'', b_filePath = ''/banks/dev.json'', b_description = ''patterns'',
       b_entityTypes = [''insight''], b_graph = emptyGraph \<rparr>"

definition demoBanks :: manager where
  "demoBanks = [(''dev'', demoBank)]"

definition noFiles :: fs where
  "noFiles = (\<lambda>path. Missing)"

definition authEntity :: entity where
  "authEntity =
     \<lparr> e_name = ''Auth'', e_entityType = ''insight'', e_observations = [''uses JWT''],
       e_memoryBank = None, e_projectId = None, e_sessionId = None, e_createdAt = None,
       e_extractedFrom = None, e_confidenceScore = None \<rparr>"

definition authEntity2 :: entity where
  \<comment> \<open>another entity of the same name\<close>
  "authEntity2 = authEntity\<lparr> e_observations := [''uses OAuth''] \<rparr>"

definition loginRelation :: relation where
  "loginRelation =
     \<lparr> l_from = ''Auth'', l_to = ''Login'', l_relationType = ''supports'',
       l_memoryBank = None, l_fromBank = None, l_toBank = None, l_projectContext = None,
       l_createdAt = None, l_strength = None \<rparr>"

definition authText :: string where
  \<open>authText = ''{"type":"entity","memoryBank":"dev","name":"Auth","entityType":"insight","observations":["uses JWT"]}''\<close>

definition authStampedText :: string where
  \<open>authStampedText = ''{"type":"entity","memoryBank":"dev","name":"Auth","entityType":"insight","observations":["uses JWT"],"createdAt":"T1"}''\<close>

definition auth2StampedText :: string where
  \<open>auth2StampedText = ''{"type":"entity","memoryBank":"dev","name":"Auth","entityType":"insight","observations":["uses OAuth"],"createdAt":"T1"}''\<close>

definition loginText :: string where
  \<open>loginText = ''{"type":"relation","memoryBank":"dev","from":"Auth","to":"Login","relationType":"supports"}''\<close>

definition demoParse :: "string \<Rightarrow> parsed" where
  \<comment> \<open>\<open>JSON.parse\<close> on the lines of the examples\<close>
  "demoParse line =
     (if line = authText then Item (EntityItem (authEntity\<lparr> e_memoryBank := Some ''dev'' \<rparr>))
      else if line = authStampedText then
        Item (EntityItem (authEntity\<lparr> e_memoryBank := Some ''dev'', e_createdAt := Some ''T1'' \<rparr>))
      else if line = auth2StampedText then
        Item (EntityItem (authEntity2\<lparr> e_memoryBank := Some ''dev'', e_createdAt := Some ''T1'' \<rparr>))
      else if line = loginText then
        Item (RelationItem (loginRelation\<lparr> l_memoryBank := Some ''dev'' \<rparr>))
      else if line = ''null'' then Null
      else if line = ''42'' then Other
      else Throws)"

definition demoStringify :: "item \<Rightarrow> string" where
  \<comment> \<open>\<open>JSON.stringify\<close> on the objects of the examples\<close>
  "demoStringify it =
     (if it = EntityItem (authEntity\<lparr> e_memoryBank := Some ''dev'' \<rparr>) then authText
      else if it = EntityItem (authEntity\<lparr> e_memoryBank := Some ''dev'', e_createdAt := Some ''T1'' \<rparr>)
        then authStampedText
      else if it = EntityItem (authEntity2\<lparr> e_memoryBank := Some ''dev'', e_createdAt := Some ''T1'' \<rparr>)
        then auth2StampedText
      else if it = RelationItem (loginRelation\<lparr> l_memoryBank := Some ''dev'' \<rparr>) then loginText
      else ''{}'')"

definition mixedText :: string where
  \<comment> \<open>a bank file with an entity, a line that is no JSON, a blank line, a relation and
      \<open>null\<close>\<close>
  "mixedText = authText @ [newline] @ ''not json'' @ [newline] @ ''  '' @ [newline] @
               loginText @ [newline] @ ''null''"


definition authFiles :: fs where
  \<comment> \<open>the bank of the examples, holding the stamped entity\<close>
  "authFiles = noFiles(''/banks/dev.json'' := File authStampedText)"

definition authHit :: session_search_result where
  \<comment> \<open>a hit of the session search, for the query \<open>auth\<close>\<close>
  "authHit =
     \<lparr> sr_session =
         \<lparr> cs_id = ''s1'', cs_projectId = ''p1'', cs_filePath = ''/p1/s1.jsonl'',
           cs_timestamp = ''2025-01-01T00:00:00.000Z'', cs_messageCount = 2, cs_toolCalls = 0,
           cs_patterns = [] \<rparr>,
       sr_project =
         \<lparr> cp_id = ''p1'', cp_name = ''p1'', cp_path = ''/p1'', cp_sessions = [],
           cp_lastActivity = ''2025-01-01T00:00:00.000Z'', cp_sessionCount = 1 \<rparr>,
       sr_relevance = 3,
       sr_matchedContent = [''auth flow''] \<rparr>"

definition demoSearch :: "string \<Rightarrow> error + session_search_result list" where
  "demoSearch query = Inr [authHit]"

definition authSessionResult :: unified_result where
  "authSessionResult =
     \<lparr> r_source = src_session, r_bankName = None, r_entityName = None,
       r_content = ''auth flow'', r_relevanceScore = 3,
       r_context = \<lparr> c_projectId = Some ''p1'', c_sessionId = Some ''s1'',
                     c_timestamp = Some ''2025-01-01T00:00:00.000Z'' \<rparr> \<rparr>"

definition authBankResult :: unified_result where
  "authBankResult =
     \<lparr> r_source = src_memory_bank, r_bankName = Some ''dev'', r_entityName = Some ''Auth'',
       r_content = ''Name: Auth'', r_relevanceScore = 10,
       r_context = \<lparr> c_projectId = None, c_sessionId = None, c_timestamp = Some ''T1'' \<rparr> \<rparr>"

section \<open>Facts about the string functions and the loops\<close>

lemma thenE_Inr [simp]: "thenE (Inr v) f = f v"
  by (simp add: thenE_def)

lemma thenE_Inl [simp]: "thenE (Inl e) f = Inl e"
  by (simp add: thenE_def)

lemma forOf_emits:
  assumes "\<And>x s. x \<in> set xs \<Longrightarrow> body x s = Inr (s @ g x)"
  shows "forOf body xs s = Inr (s @ concat (map g xs))"
  using assms by (induction xs arbitrary: s) auto

lemma forOf_cong:
  assumes "\<And>x s. x \<in> set xs \<Longrightarrow> body x s = body' x s"
  shows "forOf body xs s = forOf body' xs s"
  using assms
proof (induction xs arbitrary: s)
  case Nil
  show ?case by simp
next
  case (Cons x xs)
  have "body x s = body' x s" using Cons.prems by simp
  moreover have "forOf body xs = forOf body' xs"
    using Cons.IH Cons.prems by auto
  ultimately show ?case by simp
qed

lemma splitFrom_terminator:
  "isTerminator c \<Longrightarrow>
   splitFrom cur (c # cs) = rev cur # splitFrom [] (dropWhile isTerminator cs)"
  by (simp only: splitFrom.simps if_True)

lemma splitFrom_other:
  "\<not> isTerminator c \<Longrightarrow> splitFrom cur (c # cs) = splitFrom (c # cur) cs"
  by (simp only: splitFrom.simps if_False)

declare splitFrom.simps(2) [simp del]

lemma splitFrom_pieces:
  "(\<forall>c \<in> set cur. \<not> isTerminator c) \<Longrightarrow>
   piece \<in> set (splitFrom cur cs) \<Longrightarrow> (\<forall>c \<in> set piece. \<not> isTerminator c)"
proof (induction cur cs rule: splitFrom.induct)
  case (1 cur)
  then show ?case by simp
next
  case (2 cur c cs)
  show ?case
  proof (cases "isTerminator c")
    case True
    have "piece \<in> set (rev cur # splitFrom [] (dropWhile isTerminator cs))"
      using "2.prems"(2) splitFrom_terminator [OF True, of cur cs] by simp
    then have "piece = rev cur \<or> piece \<in> set (splitFrom [] (dropWhile isTerminator cs))"
      by simp
    then show ?thesis
    proof
      assume "piece = rev cur"
      then show ?thesis using "2.prems"(1) by simp
    next
      assume m: "piece \<in> set (splitFrom [] (dropWhile isTerminator cs))"
      have e: "\<forall>c \<in> set []. \<not> isTerminator c" by simp
      show ?thesis by (rule "2.IH"(1) [OF True e m])
    qed
  next
    case False
    have m: "piece \<in> set (splitFrom (c # cur) cs)"
      using "2.prems"(2) splitFrom_other [OF False, of cur cs] by simp
    have d: "\<forall>d \<in> set (c # cur). \<not> isTerminator d"
      using False "2.prems"(1) by simp
    show ?thesis by (rule "2.IH"(2) [OF False d m])
  qed
qed

lemma splitSentences_pieces:
  "piece \<in> set (splitSentences content) \<Longrightarrow> c \<in> set piece \<Longrightarrow> \<not> isTerminator c"
  using splitFrom_pieces [of "[]" piece content] by (simp add: splitSentences_def)

lemma lowerChar_bang_D:
  assumes h: "lowerChar c = CHR ''!''"
  shows "c = CHR ''!''"
proof (cases "isUpper c")
  case False
  with h show ?thesis by (simp add: lowerChar_def)
next
  case True
  define n where "n = (of_char c :: nat)"
  have r: "65 \<le> n \<and> n \<le> 222"
    using True unfolding isUpper_def Let_def n_def by linarith
  have "char_of (n + 32) = CHR ''!''"
    using h True by (simp add: lowerChar_def n_def)
  then have "(of_char (char_of (n + 32) :: char) :: nat) = of_char (CHR ''!'')"
    by simp
  then have "(n + 32) mod 256 = 33"
    by (simp add: of_char_of)
  moreover have "(n + 32) mod 256 = n + 32"
    using r by simp
  ultimately have False using r by linarith
  then show ?thesis ..
qed

lemma lowerChar_bang_I: "lowerChar (CHR ''!'') = CHR ''!''"
  by (simp add: lowerChar_def isUpper_def)

lemma toLowerCase_bang: "CHR ''!'' \<in> set (toLowerCase s) \<longleftrightarrow> CHR ''!'' \<in> set s"
proof
  assume "CHR ''!'' \<in> set (toLowerCase s)"
  then obtain x where x: "x \<in> set s" "lowerChar x = CHR ''!''"
    unfolding toLowerCase_def by (metis (no_types) imageE list.set_map)
  from x(2) have "x = CHR ''!''" by (rule lowerChar_bang_D)
  with x(1) show "CHR ''!'' \<in> set s" by simp
next
  assume "CHR ''!'' \<in> set s"
  then have "lowerChar (CHR ''!'') \<in> set (toLowerCase s)"
    unfolding toLowerCase_def by (metis (no_types) imageI list.set_map)
  then show "CHR ''!'' \<in> set (toLowerCase s)"
    by (simp only: lowerChar_bang_I)
qed

lemma includesStr_set: "includesStr s sub \<Longrightarrow> set sub \<subseteq> set s"
  by (simp add: includesStr_def set_mono_sublist)

lemma indicatorLoop_find:
  assumes "s_timestamp session = Some stamp"
  shows "indicatorLoop session sentence lowerSentence indicators patterns =
     Inr (patterns @
       (case find (includesStr lowerSentence) indicators of
          None \<Rightarrow> []
        | Some indicator \<Rightarrow> [breakthroughPattern session stamp sentence indicator]))"
  using assms
  by (induction indicators) (simp_all add: toISOString_def breakthroughPattern_def Let_def)

lemma breakthroughBody_emits:
  assumes "s_timestamp session = Some stamp"
  shows "breakthroughBody indicators session sentence patterns =
     Inr (patterns @ breakthroughOf indicators session stamp sentence)"
  unfolding breakthroughBody_def breakthroughOf_def Let_def
  by (rule indicatorLoop_find [OF assms])

lemma breakthroughMomentsWith_emits:
  assumes "s_timestamp session = Some stamp"
  shows "breakthroughMomentsWith indicators session content =
     Inr (concat (map (breakthroughOf indicators session stamp)
            (filter (\<lambda>s. length (trim s) > 10) (splitSentences content))))"
  unfolding breakthroughMomentsWith_def Let_def
  using forOf_emits [of _ "breakthroughBody indicators session"
      "breakthroughOf indicators session stamp" "[]"]
    breakthroughBody_emits [OF assms]
  by simp

lemma indicatorLoop_filter:
  assumes "\<And>i. i \<in> set indicators \<Longrightarrow> \<not> P i \<Longrightarrow> \<not> includesStr lowerSentence i"
  shows "indicatorLoop session sentence lowerSentence indicators patterns =
         indicatorLoop session sentence lowerSentence (filter P indicators) patterns"
  using assms
proof (induction indicators)
  case Nil
  show ?case by simp
next
  case (Cons i rest)
  have ih: "indicatorLoop session sentence lowerSentence rest patterns =
         indicatorLoop session sentence lowerSentence (filter P rest) patterns"
    using Cons.IH Cons.prems by simp
  show ?case
  proof (cases "P i")
    case True
    then show ?thesis using ih by simp
  next
    case False
    then have "\<not> includesStr lowerSentence i" using Cons.prems by simp
    then show ?thesis using False ih by simp
  qed
qed

lemma bang_free_indicators:
  "filter (\<lambda>i. CHR ''!'' \<notin> set i) breakthroughIndicators =
   [''exactly :p'', ''breakthrough'', ''genius'', ''beautiful'', ''wonderful'', ''amazing'']"
  by (simp add: breakthroughIndicators_def)

lemma sentence_without_bang:
  assumes "sentence \<in> set (splitSentences content)"
  shows "CHR ''!'' \<notin> set sentence"
proof
  assume "CHR ''!'' \<in> set sentence"
  then have "\<not> isTerminator (CHR ''!'')"
    using assms by (rule splitSentences_pieces [rotated])
  then show False by (simp add: isTerminator_def)
qed

lemma bang_indicator_never_found:
  assumes "sentence \<in> set (splitSentences content)" and "CHR ''!'' \<in> set indicator"
  shows "\<not> includesStr (toLowerCase sentence) indicator"
proof
  assume "includesStr (toLowerCase sentence) indicator"
  then have "set indicator \<subseteq> set (toLowerCase sentence)" by (rule includesStr_set)
  then have "CHR ''!'' \<in> set (toLowerCase sentence)" using assms(2) by blast
  then have "CHR ''!'' \<in> set sentence" by (simp only: toLowerCase_bang)
  then show False using sentence_without_bang [OF assms(1)] by simp
qed

text \<open>
  Claim C10. The content is cut into sentences at the characters \<open>.\<close>, \<open>!\<close> and
  \<open>?\<close> before any indicator is looked for. So no sentence contains \<open>!\<close>, none of
  the indicators written with an exclamation mark is ever found in a lowercased
  sentence, and the breakthrough rule gives, on every content, what it gives with the
  six indicators that have no exclamation mark.
\<close>

theorem exclamation_indicators_never_fire:
  "(\<forall>sentence \<in> set (splitSentences content).
      CHR ''!'' \<notin> set sentence \<and>
      (\<forall>indicator. CHR ''!'' \<in> set indicator \<longrightarrow>
         \<not> includesStr (toLowerCase sentence) indicator)) \<and>
   extractBreakthroughMoments session content =
     breakthroughMomentsWith
       [''exactly :p'', ''breakthrough'', ''genius'', ''beautiful'', ''wonderful'', ''amazing'']
       session content"
proof
  show "\<forall>sentence \<in> set (splitSentences content).
      CHR ''!'' \<notin> set sentence \<and>
      (\<forall>indicator. CHR ''!'' \<in> set indicator \<longrightarrow>
         \<not> includesStr (toLowerCase sentence) indicator)"
    using sentence_without_bang bang_indicator_never_found by blast
next
  let ?P = "\<lambda>i. CHR ''!'' \<notin> set i"
  let ?sentences = "filter (\<lambda>s. length (trim s) > 10) (splitSentences content)"
  have body: "breakthroughBody breakthroughIndicators session x s =
              breakthroughBody (filter ?P breakthroughIndicators) session x s"
    if "x \<in> set ?sentences" for x s
  proof -
    have x: "x \<in> set (splitSentences content)" using that by simp
    show ?thesis
      unfolding breakthroughBody_def Let_def
      by (rule indicatorLoop_filter) (use bang_indicator_never_found [OF x] in blast)
  qed
  have "forOf (breakthroughBody breakthroughIndicators session) ?sentences [] =
        forOf (breakthroughBody (filter ?P breakthroughIndicators) session) ?sentences []"
    by (rule forOf_cong) (rule body)
  then show "extractBreakthroughMoments session content =
     breakthroughMomentsWith
       [''exactly :p'', ''breakthrough'', ''genius'', ''beautiful'', ''wonderful'', ''amazing'']
       session content"
    unfolding extractBreakthroughMoments_def breakthroughMomentsWith_def Let_def
    by (simp only: bang_free_indicators)
qed

theorem exclamation_indicators_never_fire_witness:
  "''we said aha'' \<in> set (splitSentences ''we said aha! then it worked'') \<and>
   \<not> includesStr (toLowerCase ''we said aha'') ''aha!'' \<and>
   breakthroughMomentsWith
     [''exactly :p'', ''breakthrough'', ''genius'', ''beautiful'', ''wonderful'', ''amazing'']
     demoSession ''we said aha! then it worked'' = Inr [] \<and>
   extractBreakthroughMoments demoSession ''we said aha! then it worked'' = Inr []"
proof -
  have m: "''we said aha'' \<in> set (splitSentences ''we said aha! then it worked'')"
    by code_simp
  have six: "breakthroughMomentsWith
     [''exactly :p'', ''breakthrough'', ''genius'', ''beautiful'', ''wonderful'', ''amazing'']
     demoSession ''we said aha! then it worked'' = Inr []"
    by code_simp
  have bang: "CHR ''!'' \<in> set ''aha!''" by simp
  note t = exclamation_indicators_never_fire
    [of "''we said aha! then it worked''" demoSession]
  from t m bang have "\<not> includesStr (toLowerCase ''we said aha'') ''aha!''"
    by blast
  moreover from t six
  have "extractBreakthroughMoments demoSession ''we said aha! then it worked'' = Inr []"
    by simp
  ultimately show ?thesis using m six by blast
qed






lemma technicalBody_emits:
  assumes "s_timestamp session = Some stamp"
  shows "technicalBody session sentence patterns =
     Inr (patterns @ technicalOf session stamp sentence)"
  using assms by (simp add: technicalBody_def technicalOf_def toISOString_def Let_def)

lemma collaborationBody_emits:
  assumes "s_timestamp session = Some stamp"
  shows "collaborationBody session sentence patterns =
     Inr (patterns @ collaborationOf session stamp sentence)"
  using assms by (simp add: collaborationBody_def collaborationOf_def toISOString_def Let_def)

lemma solutionBody_emits:
  assumes "s_timestamp session = Some stamp"
  shows "solutionBody session sentence patterns =
     Inr (patterns @ solutionOf session stamp sentence)"
  using assms by (simp add: solutionBody_def solutionOf_def toISOString_def Let_def)

lemma extractTechnicalInsights_emits:
  assumes "s_timestamp session = Some stamp"
  shows "extractTechnicalInsights session content =
     Inr (concat (map (technicalOf session stamp)
            (filter (\<lambda>s. length (trim s) > 20) (splitSentences content))))"
  unfolding extractTechnicalInsights_def Let_def
  using forOf_emits [of _ "technicalBody session" "technicalOf session stamp" "[]"]
    technicalBody_emits [OF assms]
  by simp

lemma extractCollaborationPatterns_emits:
  assumes "s_timestamp session = Some stamp"
  shows "extractCollaborationPatterns session content =
     Inr (concat (map (collaborationOf session stamp)
            (filter (\<lambda>s. length (trim s) > 15) (splitSentences content))))"
  unfolding extractCollaborationPatterns_def Let_def
  using forOf_emits [of _ "collaborationBody session" "collaborationOf session stamp" "[]"]
    collaborationBody_emits [OF assms]
  by simp

lemma analyzeToolUsagePatterns_ok:
  "\<exists>tools. analyzeToolUsagePatterns toolArrow nowIso (Some calls) = Inr tools \<and>
     (\<forall>p \<in> set tools. p_type p = solution_approach)"
  by (simp add: analyzeToolUsagePatterns_def Let_def)

lemma extractSolutionApproaches_emits:
  assumes "s_timestamp session = Some stamp"
      and "analyzeToolUsagePatterns toolArrow nowIso (s_toolCalls session) = Inr tools"
  shows "extractSolutionApproaches toolArrow nowIso session content =
     Inr (tools @ concat (map (solutionOf session stamp)
            (filter (\<lambda>s. length (trim s) > 20) (splitSentences content))))"
  unfolding extractSolutionApproaches_def Let_def
  using forOf_emits [of _ "solutionBody session" "solutionOf session stamp" tools]
    solutionBody_emits [OF assms(1)] assms(2)
  by simp

lemma extractPatternsFromSession_emits:
  assumes stamp: "s_timestamp session = Some stamp"
      and msgs: "getSessionContent session = Inr content"
      and tools: "analyzeToolUsagePatterns toolArrow nowIso (s_toolCalls session) = Inr tools"
  shows "extractPatternsFromSession toolArrow nowIso session =
     Inr (filter (\<lambda>p. p_confidence p > 5 / 10)
       (concat (map (technicalOf session stamp)
            (filter (\<lambda>s. length (trim s) > 20) (splitSentences content))) @
        concat (map (breakthroughOf breakthroughIndicators session stamp)
            (filter (\<lambda>s. length (trim s) > 10) (splitSentences content))) @
        concat (map (collaborationOf session stamp)
            (filter (\<lambda>s. length (trim s) > 15) (splitSentences content))) @
        (tools @ concat (map (solutionOf session stamp)
            (filter (\<lambda>s. length (trim s) > 20) (splitSentences content))))))"
  unfolding extractPatternsFromSession_def
  by (simp only: msgs thenE_Inr extractTechnicalInsights_emits [OF stamp]
      extractBreakthroughMoments_def breakthroughMomentsWith_emits [OF stamp]
      extractCollaborationPatterns_emits [OF stamp]
      extractSolutionApproaches_emits [OF stamp tools])

lemma technicalOf_type:
  "p \<in> set (technicalOf session stamp sentence) \<Longrightarrow>
     p_type p = technical_insight \<and> p_content p = trim sentence \<and>
     p_confidence p =
       min (of_nat (keywordCount technicalKeywords (toLowerCase sentence)) / 14 * 2) (9 / 10)"
  by (auto simp: technicalOf_def Let_def technicalKeywords_def split: if_splits)

lemma breakthroughOf_type:
  "p \<in> set (breakthroughOf indicators session stamp sentence) \<Longrightarrow>
     p_type p = breakthrough_moment"
  by (auto simp: breakthroughOf_def breakthroughPattern_def split: option.splits)

lemma collaborationOf_type:
  "p \<in> set (collaborationOf session stamp sentence) \<Longrightarrow> p_type p = collaboration_pattern"
  by (auto simp: collaborationOf_def Let_def split: if_splits)

lemma solutionOf_type:
  "p \<in> set (solutionOf session stamp sentence) \<Longrightarrow> p_type p = solution_approach"
  by (auto simp: solutionOf_def Let_def split: if_splits)

lemma confidence_gate:
  assumes "min (of_nat k / 14 * 2) (9 / 10) > (5 / 10 :: rat)"
  shows "k \<ge> 4"
proof (rule ccontr)
  assume "\<not> 4 \<le> k"
  then have "k \<le> 3" by simp
  then have "(of_nat k :: rat) \<le> 3" by (metis of_nat_le_iff of_nat_numeral)
  then have "(of_nat k / 14 * 2 :: rat) \<le> 3 / 14 * 2" by simp
  then have "min (of_nat k / 14 * 2) (9 / 10) \<le> (5 / 10 :: rat)" by simp
  with assms show False by simp
qed

lemma technicalOf_two:
  assumes "keywordCount technicalKeywords (toLowerCase sentence) = 2"
  shows "technicalOf session stamp sentence =
    [\<lparr> p_type = technical_insight,
       p_content = trim sentence,
       p_context = ''Technical discussion in session '' @ s_id session,
       p_confidence = min (2 / 14 * 2) (9 / 10),
       p_extractedFrom =
         \<lparr> x_sessionId = s_id session, x_projectId = s_projectId session,
           x_timestamp = stamp \<rparr> \<rparr>]"
  using assms by (simp add: technicalOf_def technicalKeywords_def)

lemma technicalOf_length:
  "length (technicalOf session stamp sentence) =
     (if keywordCount technicalKeywords (toLowerCase sentence) \<ge> 2 then 1 else 0)"
  by (simp add: technicalOf_def Let_def)

lemma length_concat_technicalOf:
  "length (concat (map (technicalOf session stamp) sentences)) =
     length (filter (\<lambda>s. keywordCount technicalKeywords (toLowerCase s) \<ge> 2) sentences)"
  by (induction sentences) (simp_all add: technicalOf_length)

lemma technicalOf_origin:
  assumes "p \<in> set (technicalOf session stamp sentence)"
  shows "keywordCount technicalKeywords (toLowerCase sentence) \<ge> 2"
  using assms by (simp add: technicalOf_def Let_def split: if_splits)

text \<open>
  Claim C4, as amended. In a session that has its timestamp, its messages and its tool
  calls: a sentence that matches exactly one of the 14 technical keywords makes the
  body of the technical rule emit nothing; a sentence that matches exactly two makes it
  emit one technical insight of confidence \<open>min (2 / 14 * 2) 0.9\<close>, which is \<open>2 / 7\<close>.
  \<open>extractTechnicalInsights\<close> returns a list that holds this pattern for every sentence
  of the content that is longer than 20 characters once trimmed and matches exactly two
  keywords; every pattern of the list comes from such a long sentence that matches at
  least two keywords, and the list has one pattern for each of them.
  \<open>extractPatternsFromSession\<close> returns only patterns of confidence above 0.5: the
  two-keyword pattern is not in its result, and every technical insight in its result
  comes from a sentence, longer than 20 characters once trimmed, that matches at least
  four keywords.
\<close>

theorem technical_confidence_gate:
  fixes session :: session and sentence :: string and stamp :: string
  defines "twoKeywordPattern \<equiv>
             \<lparr> p_type = technical_insight,
               p_content = trim sentence,
               p_context = ''Technical discussion in session '' @ s_id session,
               p_confidence = min (2 / 14 * 2) (9 / 10),
               p_extractedFrom =
                 \<lparr> x_sessionId = s_id session, x_projectId = s_projectId session,
                   x_timestamp = stamp \<rparr> \<rparr>"
  assumes stamp: "s_timestamp session = Some stamp"
      and content: "getSessionContent session = Inr content"
      and calls: "s_toolCalls session = Some calls"
  shows "(keywordCount technicalKeywords (toLowerCase sentence) = 1 \<longrightarrow>
            technicalBody session sentence patterns = Inr patterns) \<and>
         (keywordCount technicalKeywords (toLowerCase sentence) = 2 \<longrightarrow>
            technicalBody session sentence patterns =
              Inr (patterns @
                [\<lparr> p_type = technical_insight,
                   p_content = trim sentence,
                   p_context = ''Technical discussion in session '' @ s_id session,
                   p_confidence = min (2 / 14 * 2) (9 / 10),
                   p_extractedFrom =
                     \<lparr> x_sessionId = s_id session, x_projectId = s_projectId session,
                       x_timestamp = stamp \<rparr> \<rparr>])) \<and>
         (\<exists>technical. extractTechnicalInsights session content = Inr technical \<and>
            (sentence \<in> set (splitSentences content) \<and> length (trim sentence) > 20 \<and>
             keywordCount technicalKeywords (toLowerCase sentence) = 2 \<longrightarrow>
               twoKeywordPattern \<in> set technical) \<and>
            (\<forall>p \<in> set technical.
               \<exists>s \<in> set (splitSentences content).
                  length (trim s) > 20 \<and>
                  keywordCount technicalKeywords (toLowerCase s) \<ge> 2 \<and>
                  p_type p = technical_insight \<and> p_content p = trim s \<and>
                  p_confidence p =
                    min (of_nat (keywordCount technicalKeywords (toLowerCase s)) / 14 * 2)
                      (9 / 10)) \<and>
            length technical =
              length (filter (\<lambda>s. length (trim s) > 20 \<and>
                                   keywordCount technicalKeywords (toLowerCase s) \<ge> 2)
                        (splitSentences content))) \<and>
         (\<exists>out. extractPatternsFromSession toolArrow nowIso session = Inr out \<and>
            twoKeywordPattern \<notin> set out \<and>
            (\<forall>p \<in> set out. p_confidence p > 5 / 10 \<and>
               (p_type p = technical_insight \<longrightarrow>
                  (\<exists>s \<in> set (splitSentences content).
                     length (trim s) > 20 \<and> p_content p = trim s \<and>
                     keywordCount technicalKeywords (toLowerCase s) \<ge> 4))))"
proof (intro conjI impI)
  assume "keywordCount technicalKeywords (toLowerCase sentence) = 1"
  then show "technicalBody session sentence patterns = Inr patterns"
    by (simp add: technicalBody_def Let_def)
next
  assume "keywordCount technicalKeywords (toLowerCase sentence) = 2"
  then show "technicalBody session sentence patterns =
      Inr (patterns @
        [\<lparr> p_type = technical_insight,
           p_content = trim sentence,
           p_context = ''Technical discussion in session '' @ s_id session,
           p_confidence = min (2 / 14 * 2) (9 / 10),
           p_extractedFrom =
             \<lparr> x_sessionId = s_id session, x_projectId = s_projectId session,
               x_timestamp = stamp \<rparr> \<rparr>])"
    using technicalBody_emits [OF stamp, of sentence patterns]
    by (simp only: technicalOf_two)
next
  let ?long = "filter (\<lambda>s. length (trim s) > 20) (splitSentences content)"
  let ?T = "concat (map (technicalOf session stamp) ?long)"
  have T: "extractTechnicalInsights session content = Inr ?T"
    by (rule extractTechnicalInsights_emits [OF stamp])
  have two: "twoKeywordPattern \<in> set ?T"
    if "sentence \<in> set (splitSentences content) \<and> length (trim sentence) > 20 \<and>
        keywordCount technicalKeywords (toLowerCase sentence) = 2"
  proof -
    from that have long: "sentence \<in> set ?long" by simp
    from that have "technicalOf session stamp sentence = [twoKeywordPattern]"
      by (simp only: technicalOf_two twoKeywordPattern_def)
    then have "twoKeywordPattern \<in> set (technicalOf session stamp sentence)" by simp
    with long show ?thesis by (simp only: set_concat set_map) blast
  qed
  have origin: "\<exists>s \<in> set (splitSentences content).
                  length (trim s) > 20 \<and>
                  keywordCount technicalKeywords (toLowerCase s) \<ge> 2 \<and>
                  p_type p = technical_insight \<and> p_content p = trim s \<and>
                  p_confidence p =
                    min (of_nat (keywordCount technicalKeywords (toLowerCase s)) / 14 * 2)
                      (9 / 10)"
    if "p \<in> set ?T" for p
  proof -
    from that obtain s where s: "s \<in> set (splitSentences content)" "length (trim s) > 20"
        "p \<in> set (technicalOf session stamp s)"
      by auto
    from technicalOf_type [OF s(3)] technicalOf_origin [OF s(3)] s(1,2)
    show ?thesis by blast
  qed
  have count: "length ?T =
      length (filter (\<lambda>s. length (trim s) > 20 \<and>
                           keywordCount technicalKeywords (toLowerCase s) \<ge> 2)
                (splitSentences content))"
    by (simp only: length_concat_technicalOf filter_filter conj_commute)
  show "\<exists>technical. extractTechnicalInsights session content = Inr technical \<and>
            (sentence \<in> set (splitSentences content) \<and> length (trim sentence) > 20 \<and>
             keywordCount technicalKeywords (toLowerCase sentence) = 2 \<longrightarrow>
               twoKeywordPattern \<in> set technical) \<and>
            (\<forall>p \<in> set technical.
               \<exists>s \<in> set (splitSentences content).
                  length (trim s) > 20 \<and>
                  keywordCount technicalKeywords (toLowerCase s) \<ge> 2 \<and>
                  p_type p = technical_insight \<and> p_content p = trim s \<and>
                  p_confidence p =
                    min (of_nat (keywordCount technicalKeywords (toLowerCase s)) / 14 * 2)
                      (9 / 10)) \<and>
            length technical =
              length (filter (\<lambda>s. length (trim s) > 20 \<and>
                                   keywordCount technicalKeywords (toLowerCase s) \<ge> 2)
                        (splitSentences content))"
    using T two origin count by blast
next
  obtain tools where tools: "analyzeToolUsagePatterns toolArrow nowIso (s_toolCalls session) = Inr tools"
    and tools_type: "\<forall>p \<in> set tools. p_type p = solution_approach"
    using analyzeToolUsagePatterns_ok [of toolArrow nowIso calls] calls by auto
  let ?T = "concat (map (technicalOf session stamp)
            (filter (\<lambda>s. length (trim s) > 20) (splitSentences content)))"
  let ?B = "concat (map (breakthroughOf breakthroughIndicators session stamp)
            (filter (\<lambda>s. length (trim s) > 10) (splitSentences content)))"
  let ?C = "concat (map (collaborationOf session stamp)
            (filter (\<lambda>s. length (trim s) > 15) (splitSentences content)))"
  let ?S = "tools @ concat (map (solutionOf session stamp)
            (filter (\<lambda>s. length (trim s) > 20) (splitSentences content)))"
  let ?out = "filter (\<lambda>p. p_confidence p > 5 / 10) (?T @ ?B @ ?C @ ?S)"
  have out: "extractPatternsFromSession toolArrow nowIso session = Inr ?out"
    by (rule extractPatternsFromSession_emits [OF stamp content tools])
  have B: "p_type p = breakthrough_moment" if "p \<in> set ?B" for p
    using that breakthroughOf_type by auto
  have C: "p_type p = collaboration_pattern" if "p \<in> set ?C" for p
    using that collaborationOf_type by auto
  have S: "p_type p = solution_approach" if "p \<in> set ?S" for p
    using that solutionOf_type tools_type by auto
  have gate: "p_confidence p > 5 / 10 \<and>
               (p_type p = technical_insight \<longrightarrow>
                  (\<exists>s \<in> set (splitSentences content).
                     length (trim s) > 20 \<and> p_content p = trim s \<and>
                     keywordCount technicalKeywords (toLowerCase s) \<ge> 4))"
    if p: "p \<in> set ?out" for p
  proof
    have both: "p \<in> set (?T @ ?B @ ?C @ ?S) \<and> p_confidence p > 5 / 10"
      using p by (simp only: set_filter mem_Collect_eq)
    then show conf: "p_confidence p > 5 / 10" ..
    show "p_type p = technical_insight \<longrightarrow>
                  (\<exists>s \<in> set (splitSentences content).
                     length (trim s) > 20 \<and> p_content p = trim s \<and>
                     keywordCount technicalKeywords (toLowerCase s) \<ge> 4)"
    proof
      assume ty: "p_type p = technical_insight"
      have "p \<in> set (?T @ ?B @ ?C @ ?S)"
        using p by (simp only: set_filter mem_Collect_eq)
      then have "p \<in> set ?T \<or> p \<in> set ?B \<or> p \<in> set ?C \<or> p \<in> set ?S"
        by (simp only: set_append Un_iff)
      then have "p \<in> set ?T" using ty B C S by fastforce
      then obtain s where s: "s \<in> set (splitSentences content)" "length (trim s) > 20"
          "p \<in> set (technicalOf session stamp s)"
        by auto
      from technicalOf_type [OF s(3)]
      have c: "p_content p = trim s"
        and k: "p_confidence p =
          min (of_nat (keywordCount technicalKeywords (toLowerCase s)) / 14 * 2) (9 / 10)"
        by simp_all
      have "keywordCount technicalKeywords (toLowerCase s) \<ge> 4"
        using conf k confidence_gate by simp
      with s c show "\<exists>s \<in> set (splitSentences content).
                     length (trim s) > 20 \<and> p_content p = trim s \<and>
                     keywordCount technicalKeywords (toLowerCase s) \<ge> 4"
        by blast
    qed
  qed
  have low: "\<not> p_confidence twoKeywordPattern > 5 / 10"
    by (simp add: twoKeywordPattern_def)
  have absent: "twoKeywordPattern \<notin> set ?out"
    using gate [of twoKeywordPattern] low by blast
  show "\<exists>out. extractPatternsFromSession toolArrow nowIso session = Inr out \<and>
            twoKeywordPattern \<notin> set out \<and>
            (\<forall>p \<in> set out. p_confidence p > 5 / 10 \<and>
               (p_type p = technical_insight \<longrightarrow>
                  (\<exists>s \<in> set (splitSentences content).
                     length (trim s) > 20 \<and> p_content p = trim s \<and>
                     keywordCount technicalKeywords (toLowerCase s) \<ge> 4)))"
    using out gate absent by blast
qed


text \<open>
  Claim C4 as first stated fails on a session whose one sentence matches two keywords:
  the sentence is long enough and is a sentence of the content, the technical rule
  emits its pattern, and \<open>extractPatternsFromSession\<close> returns nothing.
\<close>

theorem technical_two_keywords_dropped:
  "getSessionContent gateSession = Inr ''the api reads the database'' \<and>
   ''the api reads the database'' \<in>
      set (splitSentences ''the api reads the database'') \<and>
   length (trim ''the api reads the database'') > 20 \<and>
   keywordCount technicalKeywords
      (toLowerCase ''the api reads the database'') = 2 \<and>
   extractPatternsFromSession demoArrow ''2025-01-02T00:00:00.000Z'' gateSession = Inr []"
proof -
  have 1: "getSessionContent gateSession = Inr ''the api reads the database''"
    by (simp add: getSessionContent_def gateSession_def orEmpty_def)
  have 2: "''the api reads the database'' \<in>
      set (splitSentences ''the api reads the database'')"
    by code_simp
  have 3: "length (trim ''the api reads the database'') > 20"
    by code_simp
  have 4: "keywordCount technicalKeywords
      (toLowerCase ''the api reads the database'') = 2"
    by code_simp
  have t: "extractTechnicalInsights gateSession ''the api reads the database'' =
      Inr [\<lparr> p_type = technical_insight,
             p_content = ''the api reads the database'',
             p_context = ''Technical discussion in session s1'',
             p_confidence = 2 / 7,
             p_extractedFrom =
               \<lparr> x_sessionId = ''s1'', x_projectId = ''p1'',
                 x_timestamp = ''2025-01-01T00:00:00.000Z'' \<rparr> \<rparr>]"
    by code_simp
  have b: "extractBreakthroughMoments gateSession ''the api reads the database'' = Inr []"
    by code_simp
  have c: "extractCollaborationPatterns gateSession ''the api reads the database'' = Inr []"
    by code_simp
  have s: "extractSolutionApproaches demoArrow ''2025-01-02T00:00:00.000Z'' gateSession
      ''the api reads the database'' = Inr []"
    by code_simp
  have 5: "extractPatternsFromSession demoArrow ''2025-01-02T00:00:00.000Z'' gateSession = Inr []"
    by (simp add: extractPatternsFromSession_def 1 t b c s)
  from 1 2 3 4 5 show ?thesis by blast
qed

theorem technical_confidence_gate_witness:
  "technicalBody gateSession4 ''Only the api is here'' [] = Inr [] \<and>
   technicalBody gateSession4 ''the api reads the database '' [] =
     Inr [\<lparr> p_type = technical_insight,
            p_content = ''the api reads the database'',
            p_context = ''Technical discussion in session s1'',
            p_confidence = 2 / 7,
            p_extractedFrom =
              \<lparr> x_sessionId = ''s1'', x_projectId = ''p1'',
                x_timestamp = ''2025-01-01T00:00:00.000Z'' \<rparr> \<rparr>] \<and>
   ''the api reads the database '' \<in> set (splitSentences
        ''the api reads the database . api framework database library'') \<and>
   (\<exists>technical.
      extractTechnicalInsights gateSession4
        ''the api reads the database . api framework database library'' = Inr technical \<and>
      \<lparr> p_type = technical_insight,
        p_content = ''the api reads the database'',
        p_context = ''Technical discussion in session s1'',
        p_confidence = 2 / 7,
        p_extractedFrom =
          \<lparr> x_sessionId = ''s1'', x_projectId = ''p1'',
            x_timestamp = ''2025-01-01T00:00:00.000Z'' \<rparr> \<rparr> \<in> set technical \<and>
      length technical = 2) \<and>
   extractPatternsFromSession demoArrow ''2025-01-02T00:00:00.000Z'' gateSession4 =
     Inr [\<lparr> p_type = technical_insight,
            p_content = ''api framework database library'',
            p_context = ''Technical discussion in session s1'',
            p_confidence = 4 / 7,
            p_extractedFrom =
              \<lparr> x_sessionId = ''s1'', x_projectId = ''p1'',
                x_timestamp = ''2025-01-01T00:00:00.000Z'' \<rparr> \<rparr>] \<and>
   (\<exists>s. s \<in> set (splitSentences
        ''the api reads the database . api framework database library'') \<and>
      ''api framework database library'' = trim s \<and>
      keywordCount technicalKeywords (toLowerCase s) \<ge> 4)"
proof -
  let ?c = "''the api reads the database . api framework database library''"
  let ?s2 = "''the api reads the database ''"
  let ?p2 = "\<lparr> p_type = technical_insight,
            p_content = ''the api reads the database'',
            p_context = ''Technical discussion in session s1'',
            p_confidence = 2 / 7,
            p_extractedFrom =
              \<lparr> x_sessionId = ''s1'', x_projectId = ''p1'',
                x_timestamp = ''2025-01-01T00:00:00.000Z'' \<rparr> \<rparr>"
  let ?p4 = "\<lparr> p_type = technical_insight,
            p_content = ''api framework database library'',
            p_context = ''Technical discussion in session s1'',
            p_confidence = 4 / 7,
            p_extractedFrom =
              \<lparr> x_sessionId = ''s1'', x_projectId = ''p1'',
                x_timestamp = ''2025-01-01T00:00:00.000Z'' \<rparr> \<rparr>"
  have 1: "s_timestamp gateSession4 = Some ''2025-01-01T00:00:00.000Z''"
    by (simp add: gateSession4_def)
  have 2: "getSessionContent gateSession4 = Inr ?c"
    by (simp add: getSessionContent_def gateSession4_def orEmpty_def)
  have 3: "s_toolCalls gateSession4 = Some []"
    by (simp add: gateSession4_def)
  have k1: "keywordCount technicalKeywords (toLowerCase ''Only the api is here'') = 1"
    by code_simp
  have k2: "keywordCount technicalKeywords (toLowerCase ?s2) = 2"
    by code_simp
  have tr: "trim ?s2 = ''the api reads the database''"
    by code_simp
  have mem: "?s2 \<in> set (splitSentences ?c)"
    by code_simp
  have long: "length (trim ?s2) > 20"
    by code_simp
  have cnt: "length (filter (\<lambda>s. length (trim s) > 20 \<and>
                 keywordCount technicalKeywords (toLowerCase s) \<ge> 2) (splitSentences ?c)) = 2"
    by code_simp
  have ids: "s_id gateSession4 = ''s1''" "s_projectId gateSession4 = ''p1''"
    by (simp_all add: gateSession4_def)
  have t: "extractTechnicalInsights gateSession4 ?c = Inr [?p2, ?p4]"
    by code_simp
  have bm: "extractBreakthroughMoments gateSession4 ?c = Inr []"
    by code_simp
  have co: "extractCollaborationPatterns gateSession4 ?c = Inr []"
    by code_simp
  have so: "extractSolutionApproaches demoArrow ''2025-01-02T00:00:00.000Z'' gateSession4 ?c = Inr []"
    by code_simp
  have out: "extractPatternsFromSession demoArrow ''2025-01-02T00:00:00.000Z'' gateSession4 = Inr [?p4]"
    by (simp add: extractPatternsFromSession_def 2 t bm co so)
  note gate = technical_confidence_gate [OF 1 2 3, where toolArrow = demoArrow and
      nowIso = "''2025-01-02T00:00:00.000Z''" and patterns = "[]"]
  have a: "technicalBody gateSession4 ''Only the api is here'' [] = Inr []"
    using gate [of "''Only the api is here''"] k1 by blast
  have b: "technicalBody gateSession4 ?s2 [] = Inr [?p2]"
    using gate [of ?s2] k2 by (simp add: tr ids)
  have p2: "\<lparr> p_type = technical_insight,
               p_content = trim ?s2,
               p_context = ''Technical discussion in session '' @ s_id gateSession4,
               p_confidence = min (2 / 14 * 2) (9 / 10),
               p_extractedFrom =
                 \<lparr> x_sessionId = s_id gateSession4, x_projectId = s_projectId gateSession4,
                   x_timestamp = ''2025-01-01T00:00:00.000Z'' \<rparr> \<rparr> = ?p2"
    by (simp add: tr ids)
  obtain technical where technical:
      "extractTechnicalInsights gateSession4 ?c = Inr technical"
      "?p2 \<in> set technical" "length technical = 2"
    using gate [of ?s2, THEN conjunct2, THEN conjunct2, THEN conjunct1] mem long k2
    unfolding p2 cnt by blast
  obtain res where res: "extractPatternsFromSession demoArrow ''2025-01-02T00:00:00.000Z'' gateSession4 = Inr res"
     "\<forall>p \<in> set res. p_confidence p > 5 / 10 \<and>
               (p_type p = technical_insight \<longrightarrow>
                  (\<exists>s \<in> set (splitSentences ?c).
                     length (trim s) > 20 \<and> p_content p = trim s \<and>
                     keywordCount technicalKeywords (toLowerCase s) \<ge> 4))"
    using gate [of ?s2, THEN conjunct2, THEN conjunct2, THEN conjunct2] by blast
  have "res = [?p4]" using res(1) out by simp
  then have "\<exists>s \<in> set (splitSentences ?c).
                     length (trim s) > 20 \<and> p_content ?p4 = trim s \<and>
                     keywordCount technicalKeywords (toLowerCase s) \<ge> 4"
    using res(2) by simp
  then have c: "\<exists>s. s \<in> set (splitSentences ?c) \<and>
      ''api framework database library'' = trim s \<and>
      keywordCount technicalKeywords (toLowerCase s) \<ge> 4"
    by auto
  have d: "\<exists>technical. extractTechnicalInsights gateSession4 ?c = Inr technical \<and>
      ?p2 \<in> set technical \<and> length technical = 2"
    using technical by blast
  show ?thesis
    by (intro conjI) (rule a, rule b, rule mem, rule d, rule out, rule c)
qed

lemma forOf_TypeError:
  assumes "\<And>x s e. body x s = Inl e \<Longrightarrow> e = TypeError"
  shows "forOf body xs s = Inl e \<Longrightarrow> e = TypeError"
proof (induction xs arbitrary: s)
  case Nil
  then show ?case by simp
next
  case (Cons x xs)
  show ?case
  proof (cases "body x s")
    case (Inl e')
    then have "e' = TypeError" by (rule assms)
    moreover have "e = e'" using Cons.prems Inl by simp
    ultimately show ?thesis by simp
  next
    case (Inr s')
    then have "forOf body xs s' = Inl e" using Cons.prems by simp
    then show ?thesis by (rule Cons.IH)
  qed
qed

lemma technicalBody_TypeError: "technicalBody session x s = Inl e \<Longrightarrow> e = TypeError"
  by (cases "s_timestamp session")
     (simp_all add: technicalBody_def toISOString_def Let_def split: if_splits)

lemma collaborationBody_TypeError: "collaborationBody session x s = Inl e \<Longrightarrow> e = TypeError"
  by (cases "s_timestamp session")
     (simp_all add: collaborationBody_def toISOString_def Let_def split: if_splits)

lemma indicatorLoop_TypeError:
  "indicatorLoop session sentence lowerSentence indicators patterns = Inl e \<Longrightarrow> e = TypeError"
  by (induction indicators) 
     (cases "s_timestamp session"; simp add: toISOString_def Let_def split: if_splits)+

lemma breakthroughBody_TypeError:
  "breakthroughBody indicators session x s = Inl e \<Longrightarrow> e = TypeError"
  unfolding breakthroughBody_def Let_def by (rule indicatorLoop_TypeError)

lemma extractTechnicalInsights_TypeError:
  "extractTechnicalInsights session content = Inl e \<Longrightarrow> e = TypeError"
  unfolding extractTechnicalInsights_def Let_def
  by (rule forOf_TypeError [of "technicalBody session"]) (rule technicalBody_TypeError)

lemma extractBreakthroughMoments_TypeError:
  "extractBreakthroughMoments session content = Inl e \<Longrightarrow> e = TypeError"
  unfolding extractBreakthroughMoments_def breakthroughMomentsWith_def Let_def
  by (rule forOf_TypeError [of "breakthroughBody breakthroughIndicators session"])
     (rule breakthroughBody_TypeError)

lemma extractCollaborationPatterns_TypeError:
  "extractCollaborationPatterns session content = Inl e \<Longrightarrow> e = TypeError"
  unfolding extractCollaborationPatterns_def Let_def
  by (rule forOf_TypeError [of "collaborationBody session"]) (rule collaborationBody_TypeError)

lemma extractPatternsFromSession_no_messages:
  assumes "s_messages session = None"
  shows "extractPatternsFromSession toolArrow nowIso session = Inl TypeError"
  using assms by (simp add: extractPatternsFromSession_def getSessionContent_def)

lemma extractPatternsFromSession_no_toolCalls:
  assumes "s_toolCalls session = None"
  shows "extractPatternsFromSession toolArrow nowIso session = Inl TypeError"
proof (cases "getSessionContent session")
  case (Inl e)
  then have "e = TypeError" by (simp add: getSessionContent_def split: option.splits)
  with Inl show ?thesis by (simp add: extractPatternsFromSession_def)
next
  case content: (Inr content)
  show ?thesis
  proof (cases "extractTechnicalInsights session content")
    case (Inl e)
    then have "e = TypeError" by (rule extractTechnicalInsights_TypeError)
    with Inl content show ?thesis by (simp add: extractPatternsFromSession_def)
  next
    case t: (Inr t)
    show ?thesis
    proof (cases "extractBreakthroughMoments session content")
      case (Inl e)
      then have "e = TypeError" by (rule extractBreakthroughMoments_TypeError)
      with Inl content t show ?thesis by (simp add: extractPatternsFromSession_def)
    next
      case b: (Inr b)
      show ?thesis
      proof (cases "extractCollaborationPatterns session content")
        case (Inl e)
        then have "e = TypeError" by (rule extractCollaborationPatterns_TypeError)
        with Inl content t b show ?thesis by (simp add: extractPatternsFromSession_def)
      next
        case c: (Inr c)
        have "extractSolutionApproaches toolArrow nowIso session content = Inl TypeError"
          using assms by (simp add: extractSolutionApproaches_def analyzeToolUsagePatterns_def)
        with content t b c show ?thesis by (simp add: extractPatternsFromSession_def)
      qed
    qed
  qed
qed

lemma splitSentences_empty: "splitSentences [] = [[]]"
  by (simp add: splitSentences_def)

lemma extractPatternsFromSession_empty:
  assumes "s_messages session = Some []" and "s_toolCalls session = Some []"
  shows "extractPatternsFromSession toolArrow nowIso session = Inr []"
proof -
  have c: "getSessionContent session = Inr []"
    using assms(1) by (simp add: getSessionContent_def)
  have tr: "trim [] = []" by (simp add: trim_def)
  have t: "extractTechnicalInsights session [] = Inr []"
    by (simp add: extractTechnicalInsights_def splitSentences_empty tr)
  have b: "extractBreakthroughMoments session [] = Inr []"
    by (simp add: extractBreakthroughMoments_def breakthroughMomentsWith_def
        splitSentences_empty tr)
  have co: "extractCollaborationPatterns session [] = Inr []"
    by (simp add: extractCollaborationPatterns_def splitSentences_empty tr)
  have so: "extractSolutionApproaches toolArrow nowIso session [] = Inr []"
    using assms(2)
    by (simp add: extractSolutionApproaches_def analyzeToolUsagePatterns_def
        splitSentences_empty tr)
  show ?thesis by (simp add: extractPatternsFromSession_def c t b co so)
qed

text \<open>
  Claim C3, as amended. \<open>extractPatternsFromSession\<close> has no default for an absent
  collection: when the session's messages list is absent, or its tool-call list is, the
  call raises a TypeError. When both lists and the timestamp are there, the call
  returns a list of patterns, and with both lists empty it returns no pattern.
\<close>

theorem extraction_needs_its_collections:
  "(s_messages session = None \<longrightarrow>
      extractPatternsFromSession toolArrow nowIso session = Inl TypeError) \<and>
   (s_toolCalls session = None \<longrightarrow>
      extractPatternsFromSession toolArrow nowIso session = Inl TypeError) \<and>
   (s_messages session \<noteq> None \<and> s_toolCalls session \<noteq> None \<and> s_timestamp session \<noteq> None \<longrightarrow>
      (\<exists>out. extractPatternsFromSession toolArrow nowIso session = Inr out)) \<and>
   (s_messages session = Some [] \<and> s_toolCalls session = Some [] \<longrightarrow>
      extractPatternsFromSession toolArrow nowIso session = Inr [])"
proof (intro conjI impI)
  assume "s_messages session = None"
  then show "extractPatternsFromSession toolArrow nowIso session = Inl TypeError"
    by (rule extractPatternsFromSession_no_messages)
next
  assume "s_toolCalls session = None"
  then show "extractPatternsFromSession toolArrow nowIso session = Inl TypeError"
    by (rule extractPatternsFromSession_no_toolCalls)
next
  assume "s_messages session \<noteq> None \<and> s_toolCalls session \<noteq> None \<and>
          s_timestamp session \<noteq> None"
  then obtain msgs calls stamp where m: "s_messages session = Some msgs"
    and c: "s_toolCalls session = Some calls" and s: "s_timestamp session = Some stamp"
    by auto
  obtain content where content: "getSessionContent session = Inr content"
    using m by (simp add: getSessionContent_def)
  obtain tools where tools: "analyzeToolUsagePatterns toolArrow nowIso (s_toolCalls session) = Inr tools"
    using analyzeToolUsagePatterns_ok [of toolArrow nowIso calls] c by auto
  show "\<exists>out. extractPatternsFromSession toolArrow nowIso session = Inr out"
    using extractPatternsFromSession_emits [OF s content tools] by blast
next
  assume "s_messages session = Some [] \<and> s_toolCalls session = Some []"
  then show "extractPatternsFromSession toolArrow nowIso session = Inr []"
    using extractPatternsFromSession_empty by blast
qed

text \<open>
  Claim C3 as first stated fails on a session without its messages list, and on one
  without its tool-call list: the call raises instead of returning no pattern.
\<close>

theorem extraction_raises_without_collections:
  "s_messages noMessagesSession = None \<and>
   extractPatternsFromSession demoArrow ''2025-01-02T00:00:00.000Z'' noMessagesSession = Inl TypeError \<and>
   s_toolCalls noToolCallsSession = None \<and>
   extractPatternsFromSession demoArrow ''2025-01-02T00:00:00.000Z'' noToolCallsSession = Inl TypeError"
proof -
  have 1: "s_messages noMessagesSession = None"
    by (simp add: noMessagesSession_def)
  have 2: "s_toolCalls noToolCallsSession = None"
    by (simp add: noToolCallsSession_def)
  show ?thesis
    by (intro conjI)
       (rule 1, rule extractPatternsFromSession_no_messages [OF 1],
        rule 2, rule extractPatternsFromSession_no_toolCalls [OF 2])
qed

theorem extraction_needs_its_collections_witness:
  "extractPatternsFromSession demoArrow ''2025-01-02T00:00:00.000Z'' noMessagesSession = Inl TypeError \<and>
   extractPatternsFromSession demoArrow ''2025-01-02T00:00:00.000Z'' noToolCallsSession = Inl TypeError \<and>
   (\<exists>out. extractPatternsFromSession demoArrow ''2025-01-02T00:00:00.000Z'' gateSession = Inr out) \<and>
   extractPatternsFromSession demoArrow ''2025-01-02T00:00:00.000Z'' demoSession = Inr []"
proof -
  note t = extraction_needs_its_collections
    [where toolArrow = demoArrow and nowIso = "''2025-01-02T00:00:00.000Z''"]
  have 1: "s_messages noMessagesSession = None"
    by (simp add: noMessagesSession_def)
  have 2: "s_toolCalls noToolCallsSession = None"
    by (simp add: noToolCallsSession_def)
  have 3: "s_messages gateSession \<noteq> None \<and> s_toolCalls gateSession \<noteq> None \<and>
           s_timestamp gateSession \<noteq> None"
    by (simp add: gateSession_def)
  have 4: "s_messages demoSession = Some [] \<and> s_toolCalls demoSession = Some []"
    by (simp add: demoSession_def)
  note a = t [of noMessagesSession, THEN conjunct1, rule_format, OF 1]
  note b = t [of noToolCallsSession, THEN conjunct2, THEN conjunct1, rule_format, OF 2]
  note c = t [of gateSession, THEN conjunct2, THEN conjunct2, THEN conjunct1,
      rule_format, OF 3]
  note d = t [of demoSession, THEN conjunct2, THEN conjunct2, THEN conjunct2,
      rule_format, OF 4]
  show ?thesis
    by (intro conjI) (rule a, rule b, rule c, rule d)
qed

section \<open>Facts about the ranking\<close>

lemma truncate_extend [simp]:
  "unified_result.truncate (unified_result.extend r (scored_result.fields x)) = r"
  by (simp add: unified_result.defs scored_result.defs)

lemma finalScore_extend [simp]:
  "finalScore (unified_result.extend r (scored_result.fields x)) = x"
  by (simp add: unified_result.defs scored_result.defs)

lemma mset_sortDescBy [simp]: "mset (sortDescBy key xs) = mset xs"
  by (simp add: sortDescBy_def)

lemma set_sortDescBy [simp]: "set (sortDescBy key xs) = set xs"
  by (simp add: sortDescBy_def)

lemma sorted_sortDescBy: "sorted_wrt (\<lambda>a b. key a \<ge> key b) (sortDescBy key xs)"
proof -
  have "sorted (map (\<lambda>x. - key x) (sort_key (\<lambda>x. - key x) xs))"
    by (rule sorted_sort_key)
  then have "sorted_wrt (\<lambda>a b. - key a \<le> - key b) (sort_key (\<lambda>x. - key x) xs)"
    by (simp add: sorted_map)
  then show ?thesis by (simp add: sortDescBy_def)
qed

lemma truncate_scored:
  "map unified_result.truncate
     (map (\<lambda>(index, result). unified_result.extend result (scored_result.fields (score index result)))
        (enumerate n results)) = results"
  by (induction results arbitrary: n) simp_all

lemma paired_scored:
  "map (\<lambda>x. (unified_result.truncate x, finalScore x))
     (map (\<lambda>(index, result). unified_result.extend result (scored_result.fields (score index result)))
        (enumerate n results)) =
   zip results (map (\<lambda>(index, result). score index result) (enumerate n results))"
  by (induction results arbitrary: n) simp_all

lemma steady_scored:
  "map (\<lambda>(index, result). f result) (enumerate n results) = map f results"
  by (induction results arbitrary: n) simp_all

lemma mset_rankUnifiedResults:
  "mset (rankUnifiedResults getTime clock results query) = mset results"
proof -
  let ?ext = "\<lambda>(index, result). unified_result.extend result
     (scored_result.fields (calculateFinalScore getTime (clock index) result query))"
  have a: "mset (map unified_result.truncate
             (sortDescBy finalScore (map ?ext (enumerate 0 results)))) =
        mset (map unified_result.truncate (map ?ext (enumerate 0 results)))"
    by (simp only: mset_map mset_sortDescBy)
  have b: "map unified_result.truncate (map ?ext (enumerate 0 results)) = results"
    by (rule truncate_scored)
  show ?thesis by (simp only: rankUnifiedResults_def a b)
qed

lemma scores_rankUnifiedResults:
  "\<exists>scores. length scores = length (rankUnifiedResults getTime clock results query) \<and>
      sorted_wrt (\<lambda>a b. a \<ge> b) scores \<and>
      mset (zip (rankUnifiedResults getTime clock results query) scores) =
        mset (zip results (computedScores getTime clock results query))"
proof -
  let ?ext = "\<lambda>(index, result). unified_result.extend result
     (scored_result.fields (calculateFinalScore getTime (clock index) result query))"
  let ?E = "map ?ext (enumerate 0 results)"
  let ?S = "sortDescBy finalScore ?E"
  let ?pair = "\<lambda>x. (unified_result.truncate x, finalScore x)"
  have out: "rankUnifiedResults getTime clock results query = map unified_result.truncate ?S"
    by (simp only: rankUnifiedResults_def)
  have len: "length (map finalScore ?S) = length (map unified_result.truncate ?S)"
    by simp
  have "sorted_wrt (\<lambda>a b. finalScore a \<ge> finalScore b) ?S"
    by (rule sorted_sortDescBy)
  then have sorted: "sorted_wrt (\<lambda>a b. a \<ge> b) (map finalScore ?S)"
    by (simp only: sorted_wrt_map)
  have "zip (map unified_result.truncate ?S) (map finalScore ?S) = map ?pair ?S"
    by (simp add: zip_map_map zip_same_conv_map)
  then have "mset (zip (map unified_result.truncate ?S) (map finalScore ?S)) =
      mset (map ?pair ?E)"
    by (simp only: mset_map mset_sortDescBy)
  also have "map ?pair ?E = zip results (computedScores getTime clock results query)"
    unfolding computedScores_def by (rule paired_scored)
  finally have perm: "mset (zip (map unified_result.truncate ?S) (map finalScore ?S)) =
      mset (zip results (computedScores getTime clock results query))" .
  show ?thesis
    unfolding out using len sorted perm by blast
qed

lemma sorted_rankUnifiedResults:
  assumes steady: "\<forall>index. clock index = now"
  shows "sorted_wrt (\<lambda>a b. calculateFinalScore getTime now a query \<ge>
                      calculateFinalScore getTime now b query)
     (rankUnifiedResults getTime clock results query)"
proof -
  let ?score = "\<lambda>r. calculateFinalScore getTime now r query"
  let ?ext = "\<lambda>result. unified_result.extend result (scored_result.fields (?score result))"
  let ?S = "sortDescBy finalScore (map ?ext results)"
  have rank: "rankUnifiedResults getTime clock results query = map unified_result.truncate ?S"
    by (simp add: rankUnifiedResults_def steady steady_scored)
  have key: "finalScore x = ?score (unified_result.truncate x)" if "x \<in> set ?S" for x
  proof -
    from that obtain r where "x = ?ext r" by auto
    then show ?thesis by simp
  qed
  have "sorted_wrt (\<lambda>a b. finalScore a \<ge> finalScore b) ?S"
    by (rule sorted_sortDescBy)
  then have "sorted_wrt (\<lambda>a b. ?score (unified_result.truncate a) \<ge>
                               ?score (unified_result.truncate b)) ?S"
    by (rule sorted_wrt_mono_rel [rotated]) (simp add: key)
  then show ?thesis
    by (simp add: rank sorted_wrt_map)
qed

lemma recencyFactor_pos: "recencyFactor getTime now timestamp > 0"
  by (simp add: recencyFactor_def Let_def split: option.split)

lemma calculateFinalScore_factors:
  "calculateFinalScore getTime now result query =
     r_relevanceScore result *
     (if r_source result = src_session then 11 / 10
      else if r_relevanceScore result > 8 then 115 / 100 else 1) *
     recencyFactor getTime now (c_timestamp (r_context result)) *
     phraseFactor result query"
  by (cases "r_source result")
     (simp_all add: calculateFinalScore_def phraseFactor_def recencyFactor_def Let_def
        split: option.split)

lemma rank_pair:
  "rankUnifiedResults getTime clock [a, b] query =
     (if calculateFinalScore getTime (clock 1) b query >
         calculateFinalScore getTime (clock 0) a query
      then [b, a] else [a, b])"
  by (simp add: rankUnifiedResults_def sortDescBy_def)


text \<open>
  Claim C1, as amended. Take any result \<open>r\<close> and make of it four results that differ by
  their source and their relevance score only. At any one reading \<open>now\<close> of the clock, with
  a relevance score of 9 the memory-bank result is scored \<open>9 * 1.15\<close> times the other
  factors (recency and phrase match, the same for both) and the session result
  \<open>9 * 1.1\<close> times them; with a relevance score of 8 the memory-bank result has no source
  factor and the session result has \<open>1.1\<close>; for every relevance score the memory-bank
  factor is \<open>1.15\<close> exactly when the score is above 8. \<open>rankUnifiedResults\<close> scores the
  first result of its list at the reading \<open>clock 0\<close> and the second at \<open>clock 1\<close>. When the
  two readings give the timestamp of \<open>r\<close> the same recency factor, as they do when they
  are equal, the ranking puts the memory-bank result first at 9 and the session result
  first at 8, whatever their order in the input.
\<close>

theorem bank_boost_threshold:
  fixes r :: unified_result and getTime :: "string \<Rightarrow> int option" and now :: int
    and clock :: "nat \<Rightarrow> int" and query :: string
  defines "bank9 \<equiv> r\<lparr> r_source := src_memory_bank, r_relevanceScore := 9 \<rparr>"
      and "session9 \<equiv> r\<lparr> r_source := src_session, r_relevanceScore := 9 \<rparr>"
      and "bank8 \<equiv> r\<lparr> r_source := src_memory_bank, r_relevanceScore := 8 \<rparr>"
      and "session8 \<equiv> r\<lparr> r_source := src_session, r_relevanceScore := 8 \<rparr>"
      and "others \<equiv> recencyFactor getTime now (c_timestamp (r_context r)) *
             (if includesStr (toLowerCase (r_content r)) (toLowerCase query) then 13 / 10 else 1)"
  assumes same: "recencyFactor getTime (clock 0) (c_timestamp (r_context r)) =
                 recencyFactor getTime (clock 1) (c_timestamp (r_context r))"
  shows "calculateFinalScore getTime now bank9 query = 9 * (115 / 100) * others \<and>
         calculateFinalScore getTime now session9 query = 9 * (11 / 10) * others \<and>
         rankUnifiedResults getTime clock [session9, bank9] query = [bank9, session9] \<and>
         rankUnifiedResults getTime clock [bank9, session9] query = [bank9, session9] \<and>
         calculateFinalScore getTime now bank8 query = 8 * others \<and>
         calculateFinalScore getTime now session8 query = 8 * (11 / 10) * others \<and>
         rankUnifiedResults getTime clock [session8, bank8] query = [session8, bank8] \<and>
         rankUnifiedResults getTime clock [bank8, session8] query = [session8, bank8] \<and>
         (\<forall>score. calculateFinalScore getTime now
              (r\<lparr> r_source := src_memory_bank, r_relevanceScore := score \<rparr>) query =
            score * (if score > 8 then 115 / 100 else 1) * others)"
proof -
  define rest where "rest = recencyFactor getTime (clock 0) (c_timestamp (r_context r)) *
             (if includesStr (toLowerCase (r_content r)) (toLowerCase query) then 13 / 10 else 1)"
  have pos: "rest > 0"
    unfolding rest_def using recencyFactor_pos [of getTime "clock 0"] by simp
  have b9: "calculateFinalScore getTime now bank9 query = 9 * (115 / 100) * others"
    by (simp add: calculateFinalScore_factors bank9_def others_def phraseFactor_def)
  have s9: "calculateFinalScore getTime now session9 query = 9 * (11 / 10) * others"
    by (simp add: calculateFinalScore_factors session9_def others_def phraseFactor_def)
  have b8: "calculateFinalScore getTime now bank8 query = 8 * others"
    by (simp add: calculateFinalScore_factors bank8_def others_def phraseFactor_def)
  have s8: "calculateFinalScore getTime now session8 query = 8 * (11 / 10) * others"
    by (simp add: calculateFinalScore_factors session8_def others_def phraseFactor_def)
  have gen: "\<forall>score. calculateFinalScore getTime now
              (r\<lparr> r_source := src_memory_bank, r_relevanceScore := score \<rparr>) query =
            score * (if score > 8 then 115 / 100 else 1) * others"
    by (simp add: calculateFinalScore_factors others_def phraseFactor_def)
  have cb9: "calculateFinalScore getTime (clock i) bank9 query = 9 * (115 / 100) * rest"
    if "i = 0 \<or> i = 1" for i
    using that same
    by (auto simp add: calculateFinalScore_factors bank9_def rest_def phraseFactor_def)
  have cs9: "calculateFinalScore getTime (clock i) session9 query = 9 * (11 / 10) * rest"
    if "i = 0 \<or> i = 1" for i
    using that same
    by (auto simp add: calculateFinalScore_factors session9_def rest_def phraseFactor_def)
  have cb8: "calculateFinalScore getTime (clock i) bank8 query = 8 * rest"
    if "i = 0 \<or> i = 1" for i
    using that same
    by (auto simp add: calculateFinalScore_factors bank8_def rest_def phraseFactor_def)
  have cs8: "calculateFinalScore getTime (clock i) session8 query = 8 * (11 / 10) * rest"
    if "i = 0 \<or> i = 1" for i
    using that same
    by (auto simp add: calculateFinalScore_factors session8_def rest_def phraseFactor_def)
  have r1: "rankUnifiedResults getTime clock [session9, bank9] query = [bank9, session9]"
    using pos by (simp add: rank_pair cb9 cs9)
  have r2: "rankUnifiedResults getTime clock [bank9, session9] query = [bank9, session9]"
    using pos by (simp add: rank_pair cb9 cs9)
  have r3: "rankUnifiedResults getTime clock [session8, bank8] query = [session8, bank8]"
    using pos by (simp add: rank_pair cb8 cs8)
  have r4: "rankUnifiedResults getTime clock [bank8, session8] query = [session8, bank8]"
    using pos by (simp add: rank_pair cb8 cs8)
  show ?thesis
    using b9 s9 r1 r2 b8 s8 r3 r4 gen
    by (intro conjI) assumption+
qed

text \<open>
  Claim C1 as first stated fails when the clock passes the end of the 30 days between the
  two calls of \<open>calculateFinalScore\<close>. The two results differ by their source only and
  have a relevance score of 9; the session result is scored exactly 30 days after its
  timestamp and keeps the recency factor \<open>1.2\<close>, the memory-bank result one millisecond
  later and gets \<open>1.1\<close>: the session result is ranked first.
\<close>

theorem bank_boost_clock_race:
  "calculateFinalScore demoGetTime (raceClock 0)
      (demoResult\<lparr> r_source := src_session, r_relevanceScore := 9 \<rparr>) ''jwt'' =
     9 * (11 / 10) * (12 / 10) * (13 / 10) \<and>
   calculateFinalScore demoGetTime (raceClock 1)
      (demoResult\<lparr> r_source := src_memory_bank, r_relevanceScore := 9 \<rparr>) ''jwt'' =
     9 * (115 / 100) * (11 / 10) * (13 / 10) \<and>
   rankUnifiedResults demoGetTime raceClock
      [demoResult\<lparr> r_source := src_session, r_relevanceScore := 9 \<rparr>,
       demoResult\<lparr> r_source := src_memory_bank, r_relevanceScore := 9 \<rparr>] ''jwt'' =
      [demoResult\<lparr> r_source := src_session, r_relevanceScore := 9 \<rparr>,
       demoResult\<lparr> r_source := src_memory_bank, r_relevanceScore := 9 \<rparr>]"
proof -
  have phrase: "includesStr (toLowerCase (r_content demoResult)) (toLowerCase ''jwt'')"
    by code_simp
  have r0: "recencyFactor demoGetTime (raceClock 0) (c_timestamp (r_context demoResult)) = 12 / 10"
    by (simp add: recencyFactor_def demoGetTime_def demoResult_def raceClock_def)
  have r1: "recencyFactor demoGetTime (raceClock (Suc 0)) (c_timestamp (r_context demoResult)) =
      11 / 10"
    by (simp add: recencyFactor_def demoGetTime_def demoResult_def raceClock_def)
  have s: "calculateFinalScore demoGetTime (raceClock 0)
      (demoResult\<lparr> r_source := src_session, r_relevanceScore := 9 \<rparr>) ''jwt'' =
     9 * (11 / 10) * (12 / 10) * (13 / 10)"
    by (simp add: calculateFinalScore_factors phraseFactor_def phrase r0)
  have b: "calculateFinalScore demoGetTime (raceClock 1)
      (demoResult\<lparr> r_source := src_memory_bank, r_relevanceScore := 9 \<rparr>) ''jwt'' =
     9 * (115 / 100) * (11 / 10) * (13 / 10)"
    by (simp add: calculateFinalScore_factors phraseFactor_def phrase r1)
  have "rankUnifiedResults demoGetTime raceClock
      [demoResult\<lparr> r_source := src_session, r_relevanceScore := 9 \<rparr>,
       demoResult\<lparr> r_source := src_memory_bank, r_relevanceScore := 9 \<rparr>] ''jwt'' =
      [demoResult\<lparr> r_source := src_session, r_relevanceScore := 9 \<rparr>,
       demoResult\<lparr> r_source := src_memory_bank, r_relevanceScore := 9 \<rparr>]"
    using s b by (simp add: rank_pair)
  with s b show ?thesis by (intro conjI)
qed

theorem bank_boost_threshold_witness:
  "recencyFactor demoGetTime (tickingClock 0) (c_timestamp (r_context demoResult)) =
     recencyFactor demoGetTime (tickingClock 1) (c_timestamp (r_context demoResult)) \<and>
   calculateFinalScore demoGetTime 1735776000000
      (demoResult\<lparr> r_source := src_memory_bank, r_relevanceScore := 9 \<rparr>) ''jwt'' =
     9 * (115 / 100) * (156 / 100) \<and>
   rankUnifiedResults demoGetTime tickingClock
      [demoResult\<lparr> r_source := src_session, r_relevanceScore := 9 \<rparr>,
       demoResult\<lparr> r_source := src_memory_bank, r_relevanceScore := 9 \<rparr>] ''jwt'' =
      [demoResult\<lparr> r_source := src_memory_bank, r_relevanceScore := 9 \<rparr>,
       demoResult\<lparr> r_source := src_session, r_relevanceScore := 9 \<rparr>] \<and>
   rankUnifiedResults demoGetTime tickingClock
      [demoResult\<lparr> r_source := src_memory_bank, r_relevanceScore := 8 \<rparr>,
       demoResult\<lparr> r_source := src_session, r_relevanceScore := 8 \<rparr>] ''jwt'' =
      [demoResult\<lparr> r_source := src_session, r_relevanceScore := 8 \<rparr>,
       demoResult\<lparr> r_source := src_memory_bank, r_relevanceScore := 8 \<rparr>]"
proof -
  have same: "recencyFactor demoGetTime (tickingClock 0) (c_timestamp (r_context demoResult)) =
     recencyFactor demoGetTime (tickingClock 1) (c_timestamp (r_context demoResult))"
    by (simp add: recencyFactor_def demoGetTime_def demoResult_def tickingClock_def)
  have recency: "recencyFactor demoGetTime 1735776000000 (c_timestamp (r_context demoResult)) =
      12 / 10"
    by (simp add: recencyFactor_def demoGetTime_def demoResult_def)
  have phrase: "includesStr (toLowerCase (r_content demoResult)) (toLowerCase ''jwt'')"
    by code_simp
  have others: "recencyFactor demoGetTime 1735776000000 (c_timestamp (r_context demoResult)) *
      (if includesStr (toLowerCase (r_content demoResult)) (toLowerCase ''jwt'')
       then 13 / 10 else 1) = (156 / 100 :: rat)"
    by (simp add: recency phrase)
  note t = bank_boost_threshold [where getTime = demoGetTime and clock = tickingClock and
      r = demoResult and query = "''jwt''" and now = 1735776000000, OF same]
  from t same show ?thesis by (simp only: others)
qed

section \<open>Facts about the bank store\<close>

lemma splitOn_no_sep: "c \<notin> set x \<Longrightarrow> splitOn c x = [x]"
  by (induction x) auto

lemma splitOn_append_sep:
  "c \<notin> set x \<Longrightarrow> splitOn c (x @ c # rest) = x # splitOn c rest"
  by (induction x) (auto split: list.splits)

lemma splitOn_join:
  assumes "lines \<noteq> []" and "\<forall>line \<in> set lines. c \<notin> set line"
  shows "splitOn c (join [c] lines) = lines"
  using assms
proof (induction "[c]" lines rule: join.induct)
  case 1
  then show ?case by simp
next
  case (2 x)
  then show ?case by (simp add: splitOn_no_sep)
next
  case (3 x y ys)
  have "splitOn c (join [c] (y # ys)) = y # ys"
    using 3 by simp
  moreover have "c \<notin> set x" using 3 by simp
  ultimately show ?case by (simp add: splitOn_append_sep)
qed

lemma loadLine_step:
  "loadLine JSON_parse bank (graph, warnings) line =
     (graph\<lparr> g_entities := g_entities graph @ entitiesOf JSON_parse [line],
             g_relations := g_relations graph @ relationsOf JSON_parse [line] \<rparr>,
      warnings @ map (parseWarning bank) (filter (malformed JSON_parse) [line]))"
proof (cases "JSON_parse line")
  case Throws
  then show ?thesis
    by (simp add: loadLine_def entitiesOf_def relationsOf_def malformed_def)
next
  case Null
  then show ?thesis
    by (simp add: loadLine_def entitiesOf_def relationsOf_def malformed_def)
next
  case (Item it)
  then show ?thesis
    by (cases it) (simp_all add: loadLine_def entitiesOf_def relationsOf_def malformed_def)
next
  case Other
  then show ?thesis
    by (simp add: loadLine_def entitiesOf_def relationsOf_def malformed_def)
qed

lemma entitiesOf_Cons:
  "entitiesOf JSON_parse (line # lines) =
     entitiesOf JSON_parse [line] @ entitiesOf JSON_parse lines"
  by (simp add: entitiesOf_def)

lemma relationsOf_Cons:
  "relationsOf JSON_parse (line # lines) =
     relationsOf JSON_parse [line] @ relationsOf JSON_parse lines"
  by (simp add: relationsOf_def)

lemma malformed_Cons:
  "filter (malformed JSON_parse) (line # lines) =
     filter (malformed JSON_parse) [line] @ filter (malformed JSON_parse) lines"
  by simp

lemma loadLine_fold:
  "foldl (loadLine JSON_parse bank) (graph, warnings) lines =
     (graph\<lparr> g_entities := g_entities graph @ entitiesOf JSON_parse lines,
             g_relations := g_relations graph @ relationsOf JSON_parse lines \<rparr>,
      warnings @ map (parseWarning bank) (filter (malformed JSON_parse) lines))"
proof (induction lines arbitrary: graph warnings)
  case Nil
  show ?case by (simp add: entitiesOf_def relationsOf_def)
next
  case (Cons line lines)
  have "foldl (loadLine JSON_parse bank) (graph, warnings) (line # lines) =
        foldl (loadLine JSON_parse bank)
          (loadLine JSON_parse bank (graph, warnings) line) lines"
    by simp
  also have "\<dots> = foldl (loadLine JSON_parse bank)
     (graph\<lparr> g_entities := g_entities graph @ entitiesOf JSON_parse [line],
             g_relations := g_relations graph @ relationsOf JSON_parse [line] \<rparr>,
      warnings @ map (parseWarning bank) (filter (malformed JSON_parse) [line])) lines"
    by (simp only: loadLine_step)
  also have "\<dots> =
     (graph\<lparr> g_entities := g_entities graph @ entitiesOf JSON_parse (line # lines),
             g_relations := g_relations graph @ relationsOf JSON_parse (line # lines) \<rparr>,
      warnings @ map (parseWarning bank) (filter (malformed JSON_parse) (line # lines)))"
    unfolding Cons.IH entitiesOf_Cons [of _ line lines] relationsOf_Cons [of _ line lines]
      malformed_Cons [of _ line lines]
    by simp
  finally show ?case .
qed

lemma loadBankGraph_file:
  assumes "files (b_filePath bank) = File data"
  shows "loadBankGraph JSON_parse files bank =
     Inr (\<lparr> g_entities = entitiesOf JSON_parse (bankLines data),
             g_relations = relationsOf JSON_parse (bankLines data) \<rparr>,
          map (parseWarning bank) (filter (malformed JSON_parse) (bankLines data)))"
  using assms
  by (simp add: loadBankGraph_def readFile_def Let_def loadLine_fold emptyGraph_def bankLines_def)

lemma loadBankGraph_missing:
  assumes "files (b_filePath bank) = Missing"
  shows "loadBankGraph JSON_parse files bank = Inr (emptyGraph, [])"
  using assms by (simp add: loadBankGraph_def readFile_def)

lemma loadBankGraph_unreadable:
  assumes "files (b_filePath bank) = Unreadable code"
  shows "loadBankGraph JSON_parse files bank =
     (if code = ''ENOENT'' then Inr (emptyGraph, []) else Inl (FsError code))"
  using assms by (simp add: loadBankGraph_def readFile_def)

lemma entitiesOf_wellformed:
  "entitiesOf JSON_parse (filter (\<lambda>line. \<not> malformed JSON_parse line) lines) =
   entitiesOf JSON_parse lines"
  by (induction lines) (auto simp: entitiesOf_def malformed_def)

lemma relationsOf_wellformed:
  "relationsOf JSON_parse (filter (\<lambda>line. \<not> malformed JSON_parse line) lines) =
   relationsOf JSON_parse lines"
  by (induction lines) (auto simp: relationsOf_def malformed_def)

text \<open>
  Claim C6. \<open>loadBankGraph\<close> never fails on what a file holds. When the file of the
  bank does not exist, it returns the empty graph. When the file exists, it returns a
  graph whatever the lines are: each malformed line (one on which \<open>JSON.parse\<close> or the
  reading of \<open>item.type\<close> raises) gives one warning and nothing else, and the graph is
  the one of the other lines. A read failure with another code than \<open>ENOENT\<close> is
  raised to the caller.
\<close>

theorem loadBankGraph_total:
  "(files (b_filePath bank) = Missing \<longrightarrow>
      loadBankGraph JSON_parse files bank = Inr (emptyGraph, [])) \<and>
   (\<forall>data. files (b_filePath bank) = File data \<longrightarrow>
      loadBankGraph JSON_parse files bank =
        Inr (\<lparr> g_entities =
                  entitiesOf JSON_parse
                    (filter (\<lambda>line. \<not> malformed JSON_parse line) (bankLines data)),
                g_relations =
                  relationsOf JSON_parse
                    (filter (\<lambda>line. \<not> malformed JSON_parse line) (bankLines data)) \<rparr>,
             map (parseWarning bank) (filter (malformed JSON_parse) (bankLines data)))) \<and>
   (\<forall>code. files (b_filePath bank) = Unreadable code \<and> code \<noteq> ''ENOENT'' \<longrightarrow>
      loadBankGraph JSON_parse files bank = Inl (FsError code))"
proof (intro conjI allI impI)
  assume "files (b_filePath bank) = Missing"
  then show "loadBankGraph JSON_parse files bank = Inr (emptyGraph, [])"
    by (rule loadBankGraph_missing)
next
  fix data
  assume "files (b_filePath bank) = File data"
  then show "loadBankGraph JSON_parse files bank =
        Inr (\<lparr> g_entities =
                  entitiesOf JSON_parse
                    (filter (\<lambda>line. \<not> malformed JSON_parse line) (bankLines data)),
                g_relations =
                  relationsOf JSON_parse
                    (filter (\<lambda>line. \<not> malformed JSON_parse line) (bankLines data)) \<rparr>,
             map (parseWarning bank) (filter (malformed JSON_parse) (bankLines data)))"
    by (simp only: loadBankGraph_file entitiesOf_wellformed relationsOf_wellformed)
next
  fix code
  assume "files (b_filePath bank) = Unreadable code \<and> code \<noteq> ''ENOENT''"
  then show "loadBankGraph JSON_parse files bank = Inl (FsError code)"
    using loadBankGraph_unreadable [of files bank code JSON_parse] by simp
qed

lemma demoParse_authText:
  "demoParse authText = Item (EntityItem (authEntity\<lparr> e_memoryBank := Some ''dev'' \<rparr>))"
  by (simp add: demoParse_def)

lemma demoParse_loginText:
  "demoParse loginText = Item (RelationItem (loginRelation\<lparr> l_memoryBank := Some ''dev'' \<rparr>))"
  by (simp add: demoParse_def authText_def authStampedText_def auth2StampedText_def loginText_def)

lemma demoParse_not_json: "demoParse ''not json'' = Throws"
  by (simp add: demoParse_def authText_def authStampedText_def auth2StampedText_def loginText_def)

lemma demoParse_null: "demoParse ''null'' = Null"
  by (simp add: demoParse_def authText_def authStampedText_def auth2StampedText_def loginText_def)

lemma bankLines_mixedText: "bankLines mixedText = [authText, ''not json'', loginText, ''null'']"
  by code_simp

theorem loadBankGraph_total_witness:
  "loadBankGraph demoParse noFiles demoBank = Inr (emptyGraph, []) \<and>
   loadBankGraph demoParse (noFiles(''/banks/dev.json'' := File mixedText)) demoBank =
     Inr (\<lparr> g_entities = [authEntity\<lparr> e_memoryBank := Some ''dev'' \<rparr>],
             g_relations = [loginRelation\<lparr> l_memoryBank := Some ''dev'' \<rparr>] \<rparr>,
          [''Failed to parse line in dev: not json'', ''Failed to parse line in dev: null'']) \<and>
   loadBankGraph demoParse (noFiles(''/banks/dev.json'' := Unreadable ''EACCES'')) demoBank =
     Inl (FsError ''EACCES'')"
proof -
  have path: "b_filePath demoBank = ''/banks/dev.json''"
    by (simp add: demoBank_def)
  have 1: "noFiles (b_filePath demoBank) = Missing"
    by (simp add: noFiles_def)
  have 2: "(noFiles(''/banks/dev.json'' := File mixedText)) (b_filePath demoBank) = File mixedText"
    by (simp add: path)
  have 3: "(noFiles(''/banks/dev.json'' := Unreadable ''EACCES'')) (b_filePath demoBank) =
      Unreadable ''EACCES'' \<and> ''EACCES'' \<noteq> ''ENOENT''"
    by (simp add: path)
  have good: "filter (\<lambda>line. \<not> malformed demoParse line) (bankLines mixedText) =
      [authText, loginText]"
    by (simp add: bankLines_mixedText malformed_def demoParse_authText demoParse_loginText
        demoParse_not_json demoParse_null)
  have bad: "filter (malformed demoParse) (bankLines mixedText) = [''not json'', ''null'']"
    by (simp add: bankLines_mixedText malformed_def demoParse_authText demoParse_loginText
        demoParse_not_json demoParse_null)
  have es: "entitiesOf demoParse [authText, loginText] =
      [authEntity\<lparr> e_memoryBank := Some ''dev'' \<rparr>]"
    by (simp add: entitiesOf_def demoParse_authText demoParse_loginText)
  have rs: "relationsOf demoParse [authText, loginText] =
      [loginRelation\<lparr> l_memoryBank := Some ''dev'' \<rparr>]"
    by (simp add: relationsOf_def demoParse_authText demoParse_loginText)
  have ws: "map (parseWarning demoBank) [''not json'', ''null''] =
      [''Failed to parse line in dev: not json'', ''Failed to parse line in dev: null'']"
    by (simp add: parseWarning_def demoBank_def)
  note a = loadBankGraph_total [of noFiles demoBank demoParse, THEN conjunct1, rule_format, OF 1]
  note b = loadBankGraph_total [of "noFiles(''/banks/dev.json'' := File mixedText)" demoBank
      demoParse, THEN conjunct2, THEN conjunct1, rule_format, OF 2]
  note c = loadBankGraph_total [of "noFiles(''/banks/dev.json'' := Unreadable ''EACCES'')"
      demoBank demoParse, THEN conjunct2, THEN conjunct2, rule_format, OF 3]
  show ?thesis
    using a b c unfolding good bad es rs ws by (intro conjI) assumption+
qed

lemma entitiesOf_stringify:
  assumes "\<forall>it \<in> set items. JSON_parse (JSON_stringify it) = Item it"
  shows "entitiesOf JSON_parse (map JSON_stringify items) = itemEntities items"
  using assms by (induction items) (auto simp: entitiesOf_def itemEntities_def split: item.splits)

lemma relationsOf_stringify:
  assumes "\<forall>it \<in> set items. JSON_parse (JSON_stringify it) = Item it"
  shows "relationsOf JSON_parse (map JSON_stringify items) = itemRelations items"
  using assms by (induction items) (auto simp: relationsOf_def itemRelations_def split: item.splits)

lemma malformed_stringify:
  assumes "\<forall>it \<in> set items. JSON_parse (JSON_stringify it) = Item it"
  shows "filter (malformed JSON_parse) (map JSON_stringify items) = []"
  using assms by (induction items) (auto simp: malformed_def)

lemma itemEntities_lines:
  "itemEntities (map (entityLine bank) es @ map (relationLine bank) rs) =
     map (storedEntity bank) es"
proof -
  have a: "itemEntities (map (entityLine bank) es) = map (storedEntity bank) es"
    by (induction es) (simp_all add: itemEntities_def entityLine_def)
  have b: "itemEntities (map (relationLine bank) rs) = []"
    by (induction rs) (simp_all add: itemEntities_def relationLine_def)
  have "itemEntities (xs @ ys) = itemEntities xs @ itemEntities ys" for xs ys
    by (simp add: itemEntities_def)
  then show ?thesis using a b by simp
qed

lemma itemRelations_lines:
  "itemRelations (map (entityLine bank) es @ map (relationLine bank) rs) =
     map (storedRelation bank) rs"
proof -
  have a: "itemRelations (map (entityLine bank) es) = []"
    by (induction es) (simp_all add: itemRelations_def entityLine_def)
  have b: "itemRelations (map (relationLine bank) rs) = map (storedRelation bank) rs"
    by (induction rs) (simp_all add: itemRelations_def relationLine_def)
  have "itemRelations (xs @ ys) = itemRelations xs @ itemRelations ys" for xs ys
    by (simp add: itemRelations_def)
  then show ?thesis using a b by simp
qed

lemma bankLines_join:
  assumes "\<forall>line \<in> set lines. newline \<notin> set line \<and> trim line \<noteq> []"
  shows "bankLines (join [newline] lines) = lines"
proof (cases "lines = []")
  case True
  then show ?thesis by (simp add: bankLines_def trim_def)
next
  case False
  then have "splitOn newline (join [newline] lines) = lines"
    using assms by (simp add: splitOn_join)
  then show ?thesis using assms by (simp add: bankLines_def)
qed

lemma save_load_items:
  assumes codec: "\<forall>it \<in> set (map (entityLine bank) (g_entities graph) @
                              map (relationLine bank) (g_relations graph)).
              JSON_parse (JSON_stringify it) = Item it \<and>
              newline \<notin> set (JSON_stringify it) \<and> trim (JSON_stringify it) \<noteq> []"
      and writable: "\<forall>code. files (b_filePath bank) \<noteq> Unreadable code"
  shows "\<exists>files'. saveBankGraph JSON_stringify files bank graph = Inr files' \<and>
           (\<forall>path. path \<noteq> b_filePath bank \<longrightarrow> files' path = files path) \<and>
           (\<exists>text. files' (b_filePath bank) = File text) \<and>
           loadBankGraph JSON_parse files' bank =
             Inr (\<lparr> g_entities = map (storedEntity bank) (g_entities graph),
                     g_relations = map (storedRelation bank) (g_relations graph) \<rparr>, [])"
proof -
  let ?items = "map (entityLine bank) (g_entities graph) @
                map (relationLine bank) (g_relations graph)"
  let ?lines = "map JSON_stringify ?items"
  let ?text = "join [newline] ?lines"
  let ?files' = "files(b_filePath bank := File ?text)"
  have lines: "map (\<lambda>e. JSON_stringify (entityLine bank e)) (g_entities graph) @
               map (\<lambda>r. JSON_stringify (relationLine bank r)) (g_relations graph) = ?lines"
    by simp
  have "writeFile files (b_filePath bank) ?text = Inr ?files'"
    using writable by (cases "files (b_filePath bank)") (simp_all add: writeFile_def)
  then have save: "saveBankGraph JSON_stringify files bank graph = Inr ?files'"
    unfolding saveBankGraph_def Let_def lines .
  have parse: "\<forall>it \<in> set ?items. JSON_parse (JSON_stringify it) = Item it"
    using codec by blast
  have "\<forall>line \<in> set ?lines. newline \<notin> set line \<and> trim line \<noteq> []"
    using codec by auto
  then have bl: "bankLines ?text = ?lines" by (rule bankLines_join)
  have "?files' (b_filePath bank) = File ?text" by simp
  then have "loadBankGraph JSON_parse ?files' bank =
     Inr (\<lparr> g_entities = entitiesOf JSON_parse (bankLines ?text),
             g_relations = relationsOf JSON_parse (bankLines ?text) \<rparr>,
          map (parseWarning bank) (filter (malformed JSON_parse) (bankLines ?text)))"
    by (rule loadBankGraph_file)
  then have load: "loadBankGraph JSON_parse ?files' bank =
             Inr (\<lparr> g_entities = map (storedEntity bank) (g_entities graph),
                     g_relations = map (storedRelation bank) (g_relations graph) \<rparr>, [])"
    unfolding bl entitiesOf_stringify [OF parse] relationsOf_stringify [OF parse]
      malformed_stringify [OF parse] itemEntities_lines itemRelations_lines
    by simp
  have "\<forall>path. path \<noteq> b_filePath bank \<longrightarrow> ?files' path = files path" by simp
  moreover have "\<exists>text. ?files' (b_filePath bank) = File text" by simp
  ultimately show ?thesis using save load by blast
qed







lemma getBank_found: "map_of banks bankName = Some bank \<Longrightarrow> getBank banks bankName = Inr bank"
  by (simp add: getBank_def)

lemma createEntitiesInBank_step:
  fixes JSON_parse :: "string \<Rightarrow> parsed" and JSON_stringify :: "item \<Rightarrow> string"
  assumes bank: "map_of banks bankName = Some bank"
      and writable: "\<forall>code. files (b_filePath bank) \<noteq> Unreadable code"
      and loaded: "loadBankGraph JSON_parse files bank = Inr (graph, warnings)"
      and new: "new = newEntitiesFor timestamp bankName graph entities"
      and codec: "\<forall>it \<in> set (map (entityLine bank) (g_entities graph @ new) @
                              map (relationLine bank) (g_relations graph)).
              JSON_parse (JSON_stringify it) = Item it \<and>
              newline \<notin> set (JSON_stringify it) \<and> trim (JSON_stringify it) \<noteq> []"
  shows "\<exists>files'. createEntitiesInBank JSON_stringify JSON_parse timestamp banks files
                     bankName entities = Inr (new, files') \<and>
           (\<forall>path. path \<noteq> b_filePath bank \<longrightarrow> files' path = files path) \<and>
           (\<forall>code. files' (b_filePath bank) \<noteq> Unreadable code) \<and>
           loadBankGraph JSON_parse files' bank =
             Inr (\<lparr> g_entities = map (storedEntity bank) (g_entities graph @ new),
                     g_relations = map (storedRelation bank) (g_relations graph) \<rparr>, [])"
proof -
  let ?graph' = "graph\<lparr> g_entities := g_entities graph @ new \<rparr>"
  have codec': "\<forall>it \<in> set (map (entityLine bank) (g_entities ?graph') @
                              map (relationLine bank) (g_relations ?graph')).
              JSON_parse (JSON_stringify it) = Item it \<and>
              newline \<notin> set (JSON_stringify it) \<and> trim (JSON_stringify it) \<noteq> []"
    using codec by simp
  obtain files' where save: "saveBankGraph JSON_stringify files bank ?graph' = Inr files'"
    and frame: "\<forall>path. path \<noteq> b_filePath bank \<longrightarrow> files' path = files path"
    and isfile: "\<exists>text. files' (b_filePath bank) = File text"
    and load: "loadBankGraph JSON_parse files' bank =
             Inr (\<lparr> g_entities = map (storedEntity bank) (g_entities ?graph'),
                     g_relations = map (storedRelation bank) (g_relations ?graph') \<rparr>, [])"
    using save_load_items [where JSON_parse = JSON_parse and JSON_stringify = JSON_stringify
        and files = files and bank = bank and graph = ?graph', OF codec' writable]
    by blast
  have create: "createEntitiesInBank JSON_stringify JSON_parse timestamp banks files
                     bankName entities = Inr (new, files')"
    unfolding createEntitiesInBank_def
    by (simp add: getBank_found [OF bank] loaded Let_def new newEntitiesFor_def
        save [unfolded new newEntitiesFor_def] del: list_ex_iff)
  have "files' (b_filePath bank) \<noteq> Unreadable code" for code
    using isfile by auto
  then show ?thesis using create frame load by simp
qed

lemma storedEntity_idem [simp]: "storedEntity bank (storedEntity bank e) = storedEntity bank e"
  by (simp add: storedEntity_def)

lemma storedRelation_idem [simp]:
  "storedRelation bank (storedRelation bank r) = storedRelation bank r"
  by (simp add: storedRelation_def)

lemma storedEntity_name [simp]: "e_name (storedEntity bank e) = e_name e"
  by (simp add: storedEntity_def)

lemma newEntitiesFor_single:
  "newEntitiesFor timestamp bankName graph [e] =
     (if list_ex (\<lambda>existingEntity. e_name existingEntity = e_name e) (g_entities graph)
      then []
      else [e\<lparr> e_createdAt := Some timestamp, e_memoryBank := Some bankName \<rparr>])"
  by (simp add: newEntitiesFor_def del: list_ex_iff)

text \<open>
  Claim C7. Take a bank of the manager whose file can be written, the graph that is
  loaded from it, and a platform on which the objects of the first save come back from
  \<open>JSON.parse\<close> as they went into \<open>JSON.stringify\<close>. Call \<open>createEntitiesInBank\<close> with
  one entity \<open>e\<close>, then again with an entity \<open>e'\<close> of the same name. Both calls succeed,
  the second one returns the empty list and leaves the graph of the bank as the first
  call left it, and that graph holds the name of \<open>e\<close> once when the bank did not hold it
  before (and as often as before otherwise); in the first case the first call returns
  \<open>e\<close>, stamped with the time and the bank.
\<close>

theorem createEntities_twice:
  fixes JSON_parse :: "string \<Rightarrow> parsed" and JSON_stringify :: "item \<Rightarrow> string"
  assumes bank: "map_of banks bankName = Some bank"
      and writable: "\<forall>code. files (b_filePath bank) \<noteq> Unreadable code"
      and loaded: "loadBankGraph JSON_parse files bank = Inr (graph, warnings)"
      and codec: "\<forall>it \<in> set (map (entityLine bank)
                                (g_entities graph @ newEntitiesFor t1 bankName graph [e]) @
                              map (relationLine bank) (g_relations graph)).
              JSON_parse (JSON_stringify it) = Item it \<and>
              newline \<notin> set (JSON_stringify it) \<and> trim (JSON_stringify it) \<noteq> []"
      and same: "e_name e' = e_name e"
  shows "\<exists>stored files1 files2 graph1.
           createEntitiesInBank JSON_stringify JSON_parse t1 banks files bankName [e] =
             Inr (stored, files1) \<and>
           createEntitiesInBank JSON_stringify JSON_parse t2 banks files1 bankName [e'] =
             Inr ([], files2) \<and>
           loadBankGraph JSON_parse files1 bank = Inr (graph1, []) \<and>
           loadBankGraph JSON_parse files2 bank = Inr (graph1, []) \<and>
           length (filter (\<lambda>x. e_name x = e_name e) (g_entities graph1)) =
             max 1 (length (filter (\<lambda>x. e_name x = e_name e) (g_entities graph))) \<and>
           (\<not> list_ex (\<lambda>x. e_name x = e_name e) (g_entities graph) \<longrightarrow>
              stored = [e\<lparr> e_createdAt := Some t1, e_memoryBank := Some bankName \<rparr>])"
proof -
  let ?new = "newEntitiesFor t1 bankName graph [e]"
  let ?graph1 = "\<lparr> g_entities = map (storedEntity bank) (g_entities graph @ ?new),
                   g_relations = map (storedRelation bank) (g_relations graph) \<rparr>"
  obtain files1 where first: "createEntitiesInBank JSON_stringify JSON_parse t1 banks files
                     bankName [e] = Inr (?new, files1)"
    and writable1: "\<forall>code. files1 (b_filePath bank) \<noteq> Unreadable code"
    and load1: "loadBankGraph JSON_parse files1 bank = Inr (?graph1, [])"
    using createEntitiesInBank_step [where JSON_parse = JSON_parse and
        JSON_stringify = JSON_stringify and files = files and bank = bank and
        banks = banks and bankName = bankName and graph = graph and warnings = warnings and
        timestamp = t1 and entities = "[e]" and new = ?new,
        OF bank writable loaded refl codec]
    by blast
  have there: "list_ex (\<lambda>x. e_name x = e_name e') (g_entities ?graph1)"
  proof (cases "list_ex (\<lambda>x. e_name x = e_name e) (g_entities graph)")
    case True
    then obtain x where x: "x \<in> set (g_entities graph)" "e_name x = e_name e"
      by (auto simp: list_ex_iff)
    then have "storedEntity bank x \<in> set (g_entities ?graph1)" by simp
    moreover have "e_name (storedEntity bank x) = e_name e'" using x(2) same by simp
    ultimately show ?thesis unfolding list_ex_iff by blast
  next
    case False
    then show ?thesis using same by (simp add: newEntitiesFor_single del: list_ex_iff)
  qed
  then have new2: "newEntitiesFor t2 bankName ?graph1 [e'] = []"
    by (simp only: newEntitiesFor_single if_True)
  have codec2: "\<forall>it \<in> set (map (entityLine bank) (g_entities ?graph1 @ []) @
                              map (relationLine bank) (g_relations ?graph1)).
              JSON_parse (JSON_stringify it) = Item it \<and>
              newline \<notin> set (JSON_stringify it) \<and> trim (JSON_stringify it) \<noteq> []"
    using codec by (simp add: entityLine_def relationLine_def image_Un image_image)
  obtain files2 where second: "createEntitiesInBank JSON_stringify JSON_parse t2 banks files1
                     bankName [e'] = Inr ([], files2)"
    and load2: "loadBankGraph JSON_parse files2 bank =
             Inr (\<lparr> g_entities = map (storedEntity bank) (g_entities ?graph1 @ []),
                     g_relations = map (storedRelation bank) (g_relations ?graph1) \<rparr>, [])"
    using createEntitiesInBank_step [where JSON_parse = JSON_parse and
        JSON_stringify = JSON_stringify and files = files1 and bank = bank and
        banks = banks and bankName = bankName and graph = ?graph1 and warnings = "[]" and
        timestamp = t2 and entities = "[e']" and new = "[]",
        OF bank writable1 load1 new2 [symmetric] codec2]
    by blast
  have load2': "loadBankGraph JSON_parse files2 bank = Inr (?graph1, [])"
    using load2 by simp
  have count: "length (filter (\<lambda>x. e_name x = e_name e) (g_entities ?graph1)) =
             max 1 (length (filter (\<lambda>x. e_name x = e_name e) (g_entities graph)))"
  proof (cases "list_ex (\<lambda>x. e_name x = e_name e) (g_entities graph)")
    case True
    then have "filter (\<lambda>x. e_name x = e_name e) (g_entities graph) \<noteq> []"
      by (simp add: list_ex_iff filter_empty_conv)
    then have "length (filter (\<lambda>x. e_name x = e_name e) (g_entities graph)) \<ge> 1"
      by (simp add: Suc_leI)
    then show ?thesis
      using True by (simp add: newEntitiesFor_single filter_map comp_def del: list_ex_iff)
  next
    case False
    then have "filter (\<lambda>x. e_name x = e_name e) (g_entities graph) = []"
      by (simp add: list_ex_iff filter_empty_conv)
    then show ?thesis
      using False by (simp add: newEntitiesFor_single filter_map comp_def del: list_ex_iff)
  qed
  have stored: "\<not> list_ex (\<lambda>x. e_name x = e_name e) (g_entities graph) \<longrightarrow>
              ?new = [e\<lparr> e_createdAt := Some t1, e_memoryBank := Some bankName \<rparr>]"
    by (simp add: newEntitiesFor_single del: list_ex_iff)
  show ?thesis
    using first second load1 load2' count stored by blast
qed

lemma demoParse_authStampedText:
  "demoParse authStampedText =
     Item (EntityItem (authEntity\<lparr> e_memoryBank := Some ''dev'', e_createdAt := Some ''T1'' \<rparr>))"
  by (simp add: demoParse_def authText_def authStampedText_def)

lemma demoParse_auth2StampedText:
  "demoParse auth2StampedText =
     Item (EntityItem (authEntity2\<lparr> e_memoryBank := Some ''dev'', e_createdAt := Some ''T1'' \<rparr>))"
  by (simp add: demoParse_def authText_def authStampedText_def auth2StampedText_def)

lemma demo_codec_authStamped:
  "demoParse (demoStringify
      (EntityItem (authEntity\<lparr> e_memoryBank := Some ''dev'', e_createdAt := Some ''T1'' \<rparr>))) =
     Item (EntityItem (authEntity\<lparr> e_memoryBank := Some ''dev'', e_createdAt := Some ''T1'' \<rparr>)) \<and>
   newline \<notin> set (demoStringify
      (EntityItem (authEntity\<lparr> e_memoryBank := Some ''dev'', e_createdAt := Some ''T1'' \<rparr>))) \<and>
   trim (demoStringify
      (EntityItem (authEntity\<lparr> e_memoryBank := Some ''dev'', e_createdAt := Some ''T1'' \<rparr>))) \<noteq> []"
proof -
  have s: "demoStringify
      (EntityItem (authEntity\<lparr> e_memoryBank := Some ''dev'', e_createdAt := Some ''T1'' \<rparr>)) =
      authStampedText"
    by (simp add: demoStringify_def authEntity_def)
  have t: "trim authStampedText \<noteq> []" by code_simp
  have n: "newline \<notin> set authStampedText" by (simp add: authStampedText_def newline_def)
  show ?thesis unfolding s using t n demoParse_authStampedText by simp
qed

lemma demo_codec_auth2Stamped:
  "demoParse (demoStringify
      (EntityItem (authEntity2\<lparr> e_memoryBank := Some ''dev'', e_createdAt := Some ''T1'' \<rparr>))) =
     Item (EntityItem (authEntity2\<lparr> e_memoryBank := Some ''dev'', e_createdAt := Some ''T1'' \<rparr>)) \<and>
   newline \<notin> set (demoStringify
      (EntityItem (authEntity2\<lparr> e_memoryBank := Some ''dev'', e_createdAt := Some ''T1'' \<rparr>))) \<and>
   trim (demoStringify
      (EntityItem (authEntity2\<lparr> e_memoryBank := Some ''dev'', e_createdAt := Some ''T1'' \<rparr>))) \<noteq> []"
proof -
  have s: "demoStringify
      (EntityItem (authEntity2\<lparr> e_memoryBank := Some ''dev'', e_createdAt := Some ''T1'' \<rparr>)) =
      auth2StampedText"
    by (simp add: demoStringify_def authEntity_def authEntity2_def)
  have t: "trim auth2StampedText \<noteq> []" by code_simp
  have n: "newline \<notin> set auth2StampedText" by (simp add: auth2StampedText_def newline_def)
  show ?thesis unfolding s using t n demoParse_auth2StampedText by simp
qed

lemma demoBank_found: "map_of demoBanks ''dev'' = Some demoBank"
  by (simp add: demoBanks_def)

lemma noFiles_writable: "\<forall>code. noFiles (b_filePath demoBank) \<noteq> Unreadable code"
  by (simp add: noFiles_def)

lemma noFiles_loaded: "loadBankGraph demoParse noFiles demoBank = Inr (emptyGraph, [])"
  by (rule loadBankGraph_missing) (simp add: noFiles_def)

lemma stored_stamped_auth:
  "storedEntity demoBank (authEntity\<lparr> e_createdAt := Some ''T1'', e_memoryBank := Some ''dev'' \<rparr>) =
     authEntity\<lparr> e_memoryBank := Some ''dev'', e_createdAt := Some ''T1'' \<rparr>"
  by (simp add: storedEntity_def authEntity_def)

lemma stored_stamped_auth2:
  "storedEntity demoBank (authEntity2\<lparr> e_createdAt := Some ''T1'', e_memoryBank := Some ''dev'' \<rparr>) =
     authEntity2\<lparr> e_memoryBank := Some ''dev'', e_createdAt := Some ''T1'' \<rparr>"
  by (simp add: storedEntity_def authEntity_def authEntity2_def)

theorem createEntities_twice_witness:
  "\<exists>stored files1 files2 graph1.
     createEntitiesInBank demoStringify demoParse ''T1'' demoBanks noFiles ''dev'' [authEntity] =
       Inr (stored, files1) \<and>
     createEntitiesInBank demoStringify demoParse ''T2'' demoBanks files1 ''dev'' [authEntity2] =
       Inr ([], files2) \<and>
     loadBankGraph demoParse files2 demoBank = Inr (graph1, []) \<and>
     length (filter (\<lambda>x. e_name x = ''Auth'') (g_entities graph1)) = 1 \<and>
     stored = [authEntity\<lparr> e_createdAt := Some ''T1'', e_memoryBank := Some ''dev'' \<rparr>]"
proof -
  have new: "newEntitiesFor ''T1'' ''dev'' emptyGraph [authEntity] =
      [authEntity\<lparr> e_createdAt := Some ''T1'', e_memoryBank := Some ''dev'' \<rparr>]"
    by (simp add: newEntitiesFor_def emptyGraph_def)
  have codec: "\<forall>it \<in> set (map (entityLine demoBank)
                   (g_entities emptyGraph @ newEntitiesFor ''T1'' ''dev'' emptyGraph [authEntity]) @
                 map (relationLine demoBank) (g_relations emptyGraph)).
              demoParse (demoStringify it) = Item it \<and>
              newline \<notin> set (demoStringify it) \<and> trim (demoStringify it) \<noteq> []"
    unfolding new using demo_codec_authStamped
    by (simp add: emptyGraph_def entityLine_def stored_stamped_auth)
  have same: "e_name authEntity2 = e_name authEntity"
    by (simp add: authEntity2_def)
  have name: "e_name authEntity = ''Auth''"
    by (simp add: authEntity_def)
  have absent: "\<not> list_ex (\<lambda>x. e_name x = e_name authEntity) (g_entities emptyGraph)"
    by (simp add: emptyGraph_def)
  from createEntities_twice [where JSON_parse = demoParse and JSON_stringify = demoStringify
      and banks = demoBanks and bankName = "''dev''" and bank = demoBank and files = noFiles
      and graph = emptyGraph and warnings = "[]" and ?t1.0 = "''T1''" and ?t2.0 = "''T2''"
      and e = authEntity and e' = authEntity2,
      OF demoBank_found noFiles_writable noFiles_loaded codec same]
  obtain stored files1 files2 graph1 where
    r: "createEntitiesInBank demoStringify demoParse ''T1'' demoBanks noFiles ''dev'' [authEntity] =
          Inr (stored, files1)"
       "createEntitiesInBank demoStringify demoParse ''T2'' demoBanks files1 ''dev'' [authEntity2] =
          Inr ([], files2)"
       "loadBankGraph demoParse files2 demoBank = Inr (graph1, [])"
       "length (filter (\<lambda>x. e_name x = e_name authEntity) (g_entities graph1)) =
          max 1 (length (filter (\<lambda>x. e_name x = e_name authEntity) (g_entities emptyGraph)))"
       "\<not> list_ex (\<lambda>x. e_name x = e_name authEntity) (g_entities emptyGraph) \<longrightarrow>
          stored = [authEntity\<lparr> e_createdAt := Some ''T1'', e_memoryBank := Some ''dev'' \<rparr>]"
    by blast
  have "length (filter (\<lambda>x. e_name x = ''Auth'') (g_entities graph1)) = 1"
    using r(4) by (simp add: name emptyGraph_def)
  moreover have "stored = [authEntity\<lparr> e_createdAt := Some ''T1'', e_memoryBank := Some ''dev'' \<rparr>]"
    using r(5) absent by blast
  ultimately show ?thesis using r(1,2,3) by blast
qed

text \<open>
  Claim C2, on an input that breaks it. \<open>createEntitiesInBank\<close> compares each incoming
  entity with the entities already in the graph, not with the other entities of the
  call. On an empty bank, a call with two entities of the same name returns both, and
  the graph loaded afterwards holds both: two entities of one name.
\<close>

theorem createEntities_batch_duplicates:
  "\<exists>files'.
     createEntitiesInBank demoStringify demoParse ''T1'' demoBanks noFiles ''dev''
         [authEntity, authEntity2] =
       Inr ([authEntity\<lparr> e_createdAt := Some ''T1'', e_memoryBank := Some ''dev'' \<rparr>,
             authEntity2\<lparr> e_createdAt := Some ''T1'', e_memoryBank := Some ''dev'' \<rparr>], files') \<and>
     loadBankGraph demoParse files' demoBank =
       Inr (\<lparr> g_entities =
                 [authEntity\<lparr> e_memoryBank := Some ''dev'', e_createdAt := Some ''T1'' \<rparr>,
                  authEntity2\<lparr> e_memoryBank := Some ''dev'', e_createdAt := Some ''T1'' \<rparr>],
               g_relations = [] \<rparr>, []) \<and>
     e_name (authEntity\<lparr> e_memoryBank := Some ''dev'', e_createdAt := Some ''T1'' \<rparr>) =
     e_name (authEntity2\<lparr> e_memoryBank := Some ''dev'', e_createdAt := Some ''T1'' \<rparr>)"
proof -
  let ?new = "[authEntity\<lparr> e_createdAt := Some ''T1'', e_memoryBank := Some ''dev'' \<rparr>,
             authEntity2\<lparr> e_createdAt := Some ''T1'', e_memoryBank := Some ''dev'' \<rparr>]"
  have new: "?new = newEntitiesFor ''T1'' ''dev'' emptyGraph [authEntity, authEntity2]"
    by (simp add: newEntitiesFor_def emptyGraph_def)
  have codec: "\<forall>it \<in> set (map (entityLine demoBank) (g_entities emptyGraph @ ?new) @
                 map (relationLine demoBank) (g_relations emptyGraph)).
              demoParse (demoStringify it) = Item it \<and>
              newline \<notin> set (demoStringify it) \<and> trim (demoStringify it) \<noteq> []"
    using demo_codec_authStamped demo_codec_auth2Stamped
    by (simp add: emptyGraph_def entityLine_def stored_stamped_auth stored_stamped_auth2)
  from createEntitiesInBank_step [where JSON_parse = demoParse and
        JSON_stringify = demoStringify and files = noFiles and bank = demoBank and
        banks = demoBanks and bankName = "''dev''" and graph = emptyGraph and warnings = "[]" and
        timestamp = "''T1''" and entities = "[authEntity, authEntity2]" and new = ?new,
        OF demoBank_found noFiles_writable noFiles_loaded new codec]
  obtain files' where
    r: "createEntitiesInBank demoStringify demoParse ''T1'' demoBanks noFiles ''dev''
         [authEntity, authEntity2] = Inr (?new, files')"
       "loadBankGraph demoParse files' demoBank =
         Inr (\<lparr> g_entities = map (storedEntity demoBank) (g_entities emptyGraph @ ?new),
                 g_relations = map (storedRelation demoBank) (g_relations emptyGraph) \<rparr>, [])"
    by blast
  have "loadBankGraph demoParse files' demoBank =
       Inr (\<lparr> g_entities =
                 [authEntity\<lparr> e_memoryBank := Some ''dev'', e_createdAt := Some ''T1'' \<rparr>,
                  authEntity2\<lparr> e_memoryBank := Some ''dev'', e_createdAt := Some ''T1'' \<rparr>],
               g_relations = [] \<rparr>, [])"
    using r(2) by (simp add: emptyGraph_def stored_stamped_auth stored_stamped_auth2)
  moreover have "e_name (authEntity\<lparr> e_memoryBank := Some ''dev'', e_createdAt := Some ''T1'' \<rparr>) =
     e_name (authEntity2\<lparr> e_memoryBank := Some ''dev'', e_createdAt := Some ''T1'' \<rparr>)"
    by (simp add: authEntity2_def)
  ultimately show ?thesis using r(1) by blast
qed

text \<open>
  Claim C9. When the session search and the search of the banks return their results,
  \<open>searchAllConsciousness\<close> returns a list with the same results, each as often as it
  came in and with all its fields as they came in, ordered by the computed final score,
  largest first: the results returned, each paired with a score, are the results that
  came in, each paired with the score computed for it at the clock reading of its call,
  and the scores descend along the list returned. When the clock stands still during the
  call, the list returned is in descending order of \<open>calculateFinalScore\<close> at that
  reading. The elements returned are of the type of the results, which has no field for
  the final score: that field exists between the two \<open>map\<close> calls of
  \<open>rankUnifiedResults\<close> only. The same holds of \<open>rankUnifiedResults\<close> on any list of results.
\<close>

theorem search_results_sorted_permutation:
  assumes sessions: "searchSessions query sessionSearchFunction = Inr sessionResults"
      and memory: "searchAllBanks JSON_parse banks files query = Inr memoryResults"
  shows "(\<exists>out. searchAllConsciousness JSON_parse getTime clock banks files query
                   sessionSearchFunction = Inr out \<and>
            mset out = mset (sessionResults @ memoryResults) \<and>
            (\<exists>scores. length scores = length out \<and>
               sorted_wrt (\<lambda>a b. a \<ge> b) scores \<and>
               mset (zip out scores) =
                 mset (zip (sessionResults @ memoryResults)
                         (computedScores getTime clock (sessionResults @ memoryResults) query))) \<and>
            ((\<forall>index. clock index = now) \<longrightarrow>
               sorted_wrt (\<lambda>a b. calculateFinalScore getTime now a query \<ge>
                                   calculateFinalScore getTime now b query) out)) \<and>
         (\<forall>results.
            mset (rankUnifiedResults getTime clock results query) = mset results \<and>
            (\<exists>scores. length scores = length (rankUnifiedResults getTime clock results query) \<and>
               sorted_wrt (\<lambda>a b. a \<ge> b) scores \<and>
               mset (zip (rankUnifiedResults getTime clock results query) scores) =
                 mset (zip results (computedScores getTime clock results query))) \<and>
            ((\<forall>index. clock index = now) \<longrightarrow>
               sorted_wrt (\<lambda>a b. calculateFinalScore getTime now a query \<ge>
                                   calculateFinalScore getTime now b query)
                 (rankUnifiedResults getTime clock results query)))"
proof
  let ?all = "sessionResults @ memoryResults"
  let ?out = "rankUnifiedResults getTime clock ?all query"
  have run: "searchAllConsciousness JSON_parse getTime clock banks files query
          sessionSearchFunction = Inr ?out"
    by (simp add: searchAllConsciousness_def sessions memory)
  have perm: "mset ?out = mset ?all"
    by (rule mset_rankUnifiedResults)
  have scores: "\<exists>scores. length scores = length ?out \<and>
               sorted_wrt (\<lambda>a b. a \<ge> b) scores \<and>
               mset (zip ?out scores) =
                 mset (zip ?all (computedScores getTime clock ?all query))"
    by (rule scores_rankUnifiedResults)
  have steady: "(\<forall>index. clock index = now) \<longrightarrow>
               sorted_wrt (\<lambda>a b. calculateFinalScore getTime now a query \<ge>
                                   calculateFinalScore getTime now b query) ?out"
    using sorted_rankUnifiedResults by blast
  show "\<exists>out. searchAllConsciousness JSON_parse getTime clock banks files query
                   sessionSearchFunction = Inr out \<and>
            mset out = mset ?all \<and>
            (\<exists>scores. length scores = length out \<and>
               sorted_wrt (\<lambda>a b. a \<ge> b) scores \<and>
               mset (zip out scores) =
                 mset (zip ?all (computedScores getTime clock ?all query))) \<and>
            ((\<forall>index. clock index = now) \<longrightarrow>
               sorted_wrt (\<lambda>a b. calculateFinalScore getTime now a query \<ge>
                                   calculateFinalScore getTime now b query) out)"
    by (intro exI [of _ ?out] conjI) (rule run, rule perm, rule scores, rule steady)
next
  show "\<forall>results.
            mset (rankUnifiedResults getTime clock results query) = mset results \<and>
            (\<exists>scores. length scores = length (rankUnifiedResults getTime clock results query) \<and>
               sorted_wrt (\<lambda>a b. a \<ge> b) scores \<and>
               mset (zip (rankUnifiedResults getTime clock results query) scores) =
                 mset (zip results (computedScores getTime clock results query))) \<and>
            ((\<forall>index. clock index = now) \<longrightarrow>
               sorted_wrt (\<lambda>a b. calculateFinalScore getTime now a query \<ge>
                                   calculateFinalScore getTime now b query)
                 (rankUnifiedResults getTime clock results query))"
  proof (intro allI conjI)
    fix results
    show "mset (rankUnifiedResults getTime clock results query) = mset results"
      by (rule mset_rankUnifiedResults)
    show "\<exists>scores. length scores = length (rankUnifiedResults getTime clock results query) \<and>
               sorted_wrt (\<lambda>a b. a \<ge> b) scores \<and>
               mset (zip (rankUnifiedResults getTime clock results query) scores) =
                 mset (zip results (computedScores getTime clock results query))"
      by (rule scores_rankUnifiedResults)
    show "(\<forall>index. clock index = now) \<longrightarrow>
               sorted_wrt (\<lambda>a b. calculateFinalScore getTime now a query \<ge>
                                   calculateFinalScore getTime now b query)
                 (rankUnifiedResults getTime clock results query)"
      using sorted_rankUnifiedResults by blast
  qed
qed

lemma demo_searchSessions: "searchSessions ''auth'' demoSearch = Inr [authSessionResult]"
  by (simp add: searchSessions_def demoSearch_def authHit_def authSessionResult_def)

lemma bankLines_authStampedText: "bankLines authStampedText = [authStampedText]"
  by code_simp

lemma demo_loaded:
  "loadBankGraph demoParse authFiles demoBank =
     Inr (\<lparr> g_entities = [authEntity\<lparr> e_memoryBank := Some ''dev'', e_createdAt := Some ''T1'' \<rparr>],
             g_relations = [] \<rparr>, [])"
proof -
  have "authFiles (b_filePath demoBank) = File authStampedText"
    by (simp add: authFiles_def demoBank_def)
  then show ?thesis
    by (simp add: loadBankGraph_file bankLines_authStampedText entitiesOf_def relationsOf_def
        malformed_def demoParse_authStampedText)
qed

lemma demo_searchEntity:
  "searchEntity ''dev'' ''auth'' []
     (authEntity\<lparr> e_memoryBank := Some ''dev'', e_createdAt := Some ''T1'' \<rparr>) = [authBankResult]"
  by code_simp

lemma demo_searchBank: "searchBank demoParse demoBanks authFiles ''dev'' ''auth'' = Inr [authBankResult]"
proof -
  have q: "toLowerCase ''auth'' = ''auth''" by code_simp
  show ?thesis
    by (simp add: searchBank_def getBank_found [OF demoBank_found] demo_loaded q
        demo_searchEntity sortDescBy_def)
qed

lemma demo_searchAllBanks: "searchAllBanks demoParse demoBanks authFiles ''auth'' = Inr [authBankResult]"
  by (simp add: searchAllBanks_def demoBanks_def demo_searchBank [unfolded demoBanks_def]
      sortDescBy_def)

theorem search_results_sorted_permutation_witness:
  "searchAllConsciousness demoParse demoGetTime tickingClock demoBanks authFiles ''auth''
     demoSearch = Inr [authBankResult, authSessionResult] \<and>
   mset [authBankResult, authSessionResult] = mset ([authSessionResult] @ [authBankResult]) \<and>
   computedScores demoGetTime tickingClock ([authSessionResult] @ [authBankResult]) ''auth'' =
     [3 * (11 / 10) * (12 / 10) * (13 / 10), 10 * (115 / 100) * (13 / 10)] \<and>
   (\<exists>scores. length scores = length [authBankResult, authSessionResult] \<and>
      sorted_wrt (\<lambda>a b. a \<ge> b) scores \<and>
      mset (zip [authBankResult, authSessionResult] scores) =
        mset (zip ([authSessionResult] @ [authBankResult])
                (computedScores demoGetTime tickingClock
                   ([authSessionResult] @ [authBankResult]) ''auth''))) \<and>
   searchAllConsciousness demoParse demoGetTime steadyClock demoBanks authFiles ''auth''
     demoSearch = Inr [authBankResult, authSessionResult] \<and>
   calculateFinalScore demoGetTime 1735776000000 authBankResult ''auth'' \<ge>
   calculateFinalScore demoGetTime 1735776000000 authSessionResult ''auth''"
proof -
  have p1: "includesStr (toLowerCase ''Name: Auth'') (toLowerCase ''auth'')" by code_simp
  have p2: "includesStr (toLowerCase ''auth flow'') (toLowerCase ''auth'')" by code_simp
  have sb: "calculateFinalScore demoGetTime now authBankResult ''auth'' =
      10 * (115 / 100) * (13 / 10)" for now
    by (simp add: calculateFinalScore_factors authBankResult_def recencyFactor_def
        demoGetTime_def phraseFactor_def p1)
  have ss: "calculateFinalScore demoGetTime 1735776000000 authSessionResult ''auth'' =
      3 * (11 / 10) * (12 / 10) * (13 / 10)"
    by (simp add: calculateFinalScore_factors authSessionResult_def recencyFactor_def
        demoGetTime_def phraseFactor_def p2)
  have t0: "tickingClock 0 = 1735776000000" "steadyClock 0 = 1735776000000"
    by (simp_all add: tickingClock_def steadyClock_def)
  have computed: "computedScores demoGetTime tickingClock
      ([authSessionResult] @ [authBankResult]) ''auth'' =
     [3 * (11 / 10) * (12 / 10) * (13 / 10), 10 * (115 / 100) * (13 / 10)]"
    by (simp add: computedScores_def t0 ss sb)
  have ranked: "rankUnifiedResults demoGetTime clock
      [authSessionResult, authBankResult] ''auth'' = [authBankResult, authSessionResult]"
    if "clock 0 = 1735776000000" for clock
    by (simp add: rank_pair that ss sb)
  have direct: "searchAllConsciousness demoParse demoGetTime clock demoBanks authFiles
      ''auth'' demoSearch = Inr [authBankResult, authSessionResult]"
    if "clock 0 = 1735776000000" for clock
    by (simp add: searchAllConsciousness_def demo_searchSessions demo_searchAllBanks
        ranked [of clock, OF that])
  from search_results_sorted_permutation [where JSON_parse = demoParse and
      getTime = demoGetTime and clock = tickingClock and banks = demoBanks and
      files = authFiles and query = "''auth''" and sessionSearchFunction = demoSearch and
      sessionResults = "[authSessionResult]" and memoryResults = "[authBankResult]" and
      now = 0,
      OF demo_searchSessions demo_searchAllBanks, THEN conjunct1]
  obtain out where out:
    "searchAllConsciousness demoParse demoGetTime tickingClock demoBanks authFiles ''auth''
       demoSearch = Inr out"
    "mset out = mset ([authSessionResult] @ [authBankResult])"
    "\<exists>scores. length scores = length out \<and>
      sorted_wrt (\<lambda>a b. a \<ge> b) scores \<and>
      mset (zip out scores) =
        mset (zip ([authSessionResult] @ [authBankResult])
                (computedScores demoGetTime tickingClock
                   ([authSessionResult] @ [authBankResult]) ''auth''))"
    by blast
  have eq: "out = [authBankResult, authSessionResult]"
    using out(1) direct [of tickingClock, OF t0(1)] by simp
  have a: "mset [authBankResult, authSessionResult] =
      mset ([authSessionResult] @ [authBankResult])"
    using out(2) unfolding eq .
  have b: "\<exists>scores. length scores = length [authBankResult, authSessionResult] \<and>
      sorted_wrt (\<lambda>a b. a \<ge> b) scores \<and>
      mset (zip [authBankResult, authSessionResult] scores) =
        mset (zip ([authSessionResult] @ [authBankResult])
                (computedScores demoGetTime tickingClock
                   ([authSessionResult] @ [authBankResult]) ''auth''))"
    using out(3) unfolding eq .
  have steady: "\<forall>index. steadyClock index = 1735776000000"
    by (simp add: steadyClock_def)
  from search_results_sorted_permutation [where JSON_parse = demoParse and
      getTime = demoGetTime and clock = steadyClock and banks = demoBanks and
      files = authFiles and query = "''auth''" and sessionSearchFunction = demoSearch and
      sessionResults = "[authSessionResult]" and memoryResults = "[authBankResult]" and
      now = 1735776000000,
      OF demo_searchSessions demo_searchAllBanks, THEN conjunct1] steady
  obtain out' where out':
    "searchAllConsciousness demoParse demoGetTime steadyClock demoBanks authFiles ''auth''
       demoSearch = Inr out'"
    "sorted_wrt (\<lambda>a b. calculateFinalScore demoGetTime 1735776000000 a ''auth'' \<ge>
                        calculateFinalScore demoGetTime 1735776000000 b ''auth'') out'"
    by blast
  have eq': "out' = [authBankResult, authSessionResult]"
    using out'(1) direct [of steadyClock, OF t0(2)] by simp
  have c: "calculateFinalScore demoGetTime 1735776000000 authBankResult ''auth'' \<ge>
      calculateFinalScore demoGetTime 1735776000000 authSessionResult ''auth''"
    using out'(2) unfolding eq' by simp
  show ?thesis
    by (intro conjI)
       (rule direct [of tickingClock, OF t0(1)], rule a, rule computed, rule b,
        rule direct [of steadyClock, OF t0(2)], rule c)
qed

end
